theory Spec2Isabelle
  imports Complex_Main
begin

section \<open>Errors and results\<close>

text \<open>
  The exceptions that the engine (\<^verbatim>\<open>src/nn.py\<close>) and the array library under it can raise.
  \<open>AssertionError\<close> is what the \<^verbatim>\<open>assert\<close> of \<^verbatim>\<open>Tensor.__pow__\<close> raises,
  \<open>AttributeError\<close> is what reading \<^verbatim>\<open>.requires_grad\<close> or \<^verbatim>\<open>.data\<close> of an object
  that lacks the attribute raises, \<open>TypeError\<close> is what putting an unhashable object
  into a set raises; the array library raises \<open>ValueError\<close>, \<open>TypeError\<close> and
  \<open>ZeroDivisionError\<close>.
\<close>

datatype error = AssertionError | AttributeError | ValueError | TypeError | ZeroDivisionError

definition bindr :: "error + 'a \<Rightarrow> ('a \<Rightarrow> error + 'b) \<Rightarrow> error + 'b" where
  "bindr m f = (case m of Inl e \<Rightarrow> Inl e | Inr x \<Rightarrow> f x)"

section \<open>The array library\<close>

text \<open>
  numpy is not part of the repository: the engine only calls it. The model takes it as a
  parameter, a record of the operations that \<^verbatim>\<open>src/nn.py\<close> applies to the values it stores
  in \<^verbatim>\<open>data\<close> and \<^verbatim>\<open>grad\<close> (arrays and plain Python numbers, the type \<open>'v\<close>).
  Each operation may raise.
\<close>

record 'v numpy =
  np_zeros_like :: "'v \<Rightarrow> error + 'v"          \<comment> \<open>\<^verbatim>\<open>np.zeros_like(x)\<close>\<close>
  np_ones_like :: "'v \<Rightarrow> error + 'v"           \<comment> \<open>\<^verbatim>\<open>np.ones_like(x)\<close>\<close>
  np_power :: "'v \<Rightarrow> 'v \<Rightarrow> error + 'v"         \<comment> \<open>\<^verbatim>\<open>np.power(x, y)\<close>\<close>
  np_exp :: "'v \<Rightarrow> error + 'v"                 \<comment> \<open>\<^verbatim>\<open>np.exp(x)\<close>\<close>
  np_T :: "'v \<Rightarrow> error + 'v"                   \<comment> \<open>\<^verbatim>\<open>x.T\<close>\<close>
  np_shape :: "'v \<Rightarrow> error + nat list"         \<comment> \<open>\<^verbatim>\<open>x.shape\<close>\<close>
  py_add :: "'v \<Rightarrow> 'v \<Rightarrow> error + 'v"           \<comment> \<open>\<^verbatim>\<open>x + y\<close>\<close>
  py_sub :: "'v \<Rightarrow> 'v \<Rightarrow> error + 'v"           \<comment> \<open>\<^verbatim>\<open>x - y\<close>\<close>
  py_mul :: "'v \<Rightarrow> 'v \<Rightarrow> error + 'v"           \<comment> \<open>\<^verbatim>\<open>x * y\<close>\<close>
  py_truediv :: "'v \<Rightarrow> 'v \<Rightarrow> error + 'v"       \<comment> \<open>\<^verbatim>\<open>x / y\<close>\<close>
  py_matmul :: "'v \<Rightarrow> 'v \<Rightarrow> error + 'v"        \<comment> \<open>\<^verbatim>\<open>x @ y\<close>\<close>
  py_pow :: "'v \<Rightarrow> 'v \<Rightarrow> error + 'v"           \<comment> \<open>\<^verbatim>\<open>x ** y\<close>\<close>
  py_neg :: "'v \<Rightarrow> error + 'v"                 \<comment> \<open>\<^verbatim>\<open>- x\<close>\<close>
  py_iadd :: "'v \<Rightarrow> 'v \<Rightarrow> error + 'v"          \<comment> \<open>\<^verbatim>\<open>x += y\<close>: the new contents of \<open>x\<close>\<close>
  py_int :: "int \<Rightarrow> 'v"                        \<comment> \<open>an integer literal of the source\<close>
  py_is_number :: "'v \<Rightarrow> bool"                 \<comment> \<open>\<^verbatim>\<open>isinstance(x, (int, float))\<close>\<close>
  py_data_attr :: "'v \<Rightarrow> error + 'v"           \<comment> \<open>\<^verbatim>\<open>x.data\<close> of a value that is no Tensor and no number\<close>

section \<open>Tensors and the object store\<close>

text \<open>
  Tensors are Python objects compared by identity: a reference is an index into the
  store, and a new object is appended to it. \<^verbatim>\<open>_prev\<close> is a Python set of Tensors; the
  field \<open>prev\<close> holds its elements, without duplicates, in the order the set iterates.

  A backward closure captures the variables \<^verbatim>\<open>a\<close>, \<^verbatim>\<open>b\<close> and \<^verbatim>\<open>z\<close> of the constructor
  that made it: \<open>AddBw a b z\<close> is the \<^verbatim>\<open>_backward\<close> defined inside \<^verbatim>\<open>Add(a, b)\<close>, and so
  on; \<open>NoOp\<close> is the \<^verbatim>\<open>lambda: None\<close> of \<^verbatim>\<open>Tensor.__init__\<close>.
\<close>

type_synonym ref = nat

datatype 'v closure =
    NoOp
  | AddBw ref ref ref
  | MulBw ref ref ref
  | NegBw ref ref
  | MatmulBw ref ref ref
  | PowBw ref 'v ref
  | DivBw ref ref ref
  | ExpBw ref ref

record 'v tensor =
  data :: 'v
  children :: "ref list"
  grad :: 'v
  backward_fn :: "'v closure"
  prev :: "ref list"
  op :: string
  label :: string
  requires_grad :: bool

type_synonym 'v heap = "'v tensor list"

text \<open>An operand of an operator method: a Tensor, or any other Python value.\<close>

datatype 'v operand = Tens ref | Raw 'v

text \<open>\<^verbatim>\<open>Tensor.__init__\<close>: allocates the object and returns the store with its reference.\<close>

definition Tensor :: "'v numpy \<Rightarrow> 'v heap \<Rightarrow> 'v \<Rightarrow> ref list \<Rightarrow> string \<Rightarrow> string \<Rightarrow> bool
    \<Rightarrow> error + ('v heap \<times> ref)" where
  "Tensor np h d cs opn lbl rg =
     bindr (np_zeros_like np d) (\<lambda>g.
       Inr (h @ [\<lparr>data = d, children = [], grad = g, backward_fn = NoOp,
                  prev = remdups cs, op = opn, label = lbl, requires_grad = rg\<rparr>],
            length h))"

definition shape :: "'v numpy \<Rightarrow> 'v heap \<Rightarrow> ref \<Rightarrow> error + nat list" where
  "shape np h self = np_shape np (data (h ! self))"

text \<open>\<^verbatim>\<open>z._backward = _backward\<close> and \<^verbatim>\<open>x.grad = g\<close>.\<close>

definition set_backward :: "'v heap \<Rightarrow> ref \<Rightarrow> 'v closure \<Rightarrow> 'v heap" where
  "set_backward h z c = h[z := (h ! z)\<lparr>backward_fn := c\<rparr>]"

definition set_grad :: "'v heap \<Rightarrow> ref \<Rightarrow> 'v \<Rightarrow> 'v heap" where
  "set_grad h x g = h[x := (h ! x)\<lparr>grad := g\<rparr>]"

text \<open>\<^verbatim>\<open>x.grad += v\<close>, where \<open>v\<close> has been evaluated already.\<close>

definition iadd_grad :: "'v numpy \<Rightarrow> 'v heap \<Rightarrow> ref \<Rightarrow> 'v \<Rightarrow> error + 'v heap" where
  "iadd_grad np h x v = bindr (py_iadd np (grad (h ! x)) v) (\<lambda>g. Inr (set_grad h x g))"

section \<open>The operation constructors\<close>

definition Add :: "'v numpy \<Rightarrow> 'v heap \<Rightarrow> ref \<Rightarrow> ref \<Rightarrow> error + ('v heap \<times> ref)" where
  "Add np h a b =
     (let rg = (requires_grad (h ! a) \<or> requires_grad (h ! b)) in
      bindr (py_add np (data (h ! a)) (data (h ! b))) (\<lambda>d.
      bindr (Tensor np h d [a, b] ''+'' '''' rg) (\<lambda>(h1, z).
      Inr (set_backward h1 z (AddBw a b z), z))))"

definition Mul :: "'v numpy \<Rightarrow> 'v heap \<Rightarrow> ref \<Rightarrow> ref \<Rightarrow> error + ('v heap \<times> ref)" where
  "Mul np h a b =
     (let rg = (requires_grad (h ! a) \<or> requires_grad (h ! b)) in
      bindr (py_mul np (data (h ! a)) (data (h ! b))) (\<lambda>d.
      bindr (Tensor np h d [a, b] ''*'' '''' rg) (\<lambda>(h1, z).
      Inr (set_backward h1 z (MulBw a b z), z))))"

definition Neg :: "'v numpy \<Rightarrow> 'v heap \<Rightarrow> ref \<Rightarrow> error + ('v heap \<times> ref)" where
  "Neg np h a =
     bindr (py_mul np (data (h ! a)) (py_int np (- 1))) (\<lambda>d.
     bindr (Tensor np h d [a] ''neg'' '''' (requires_grad (h ! a))) (\<lambda>(h1, z).
     Inr (set_backward h1 z (NegBw a z), z)))"

definition Matmul :: "'v numpy \<Rightarrow> 'v heap \<Rightarrow> ref \<Rightarrow> ref \<Rightarrow> error + ('v heap \<times> ref)" where
  "Matmul np h a b =
     (let rg = (requires_grad (h ! a) \<or> requires_grad (h ! b)) in
      bindr (py_matmul np (data (h ! a)) (data (h ! b))) (\<lambda>d.
      bindr (Tensor np h d [a, b] ''@'' '''' rg) (\<lambda>(h1, z).
      Inr (set_backward h1 z (MatmulBw a b z), z))))"

text \<open>\<^verbatim>\<open>Pow(a, b)\<close>: the exponent \<open>b\<close> is a plain value, not a Tensor.\<close>

definition Pow_op :: "'v numpy \<Rightarrow> 'v heap \<Rightarrow> ref \<Rightarrow> 'v \<Rightarrow> error + ('v heap \<times> ref)" where
  "Pow_op np h a b =
     bindr (np_power np (data (h ! a)) b) (\<lambda>d.
     bindr (Tensor np h d [a] ''pow'' '''' (requires_grad (h ! a))) (\<lambda>(h1, z).
     Inr (set_backward h1 z (PowBw a b z), z)))"

text \<open>\<^verbatim>\<open>Div\<close> tags its result \<^verbatim>\<open>'*'\<close>, as the source does.\<close>

definition Div :: "'v numpy \<Rightarrow> 'v heap \<Rightarrow> ref \<Rightarrow> ref \<Rightarrow> error + ('v heap \<times> ref)" where
  "Div np h a b =
     (let rg = (requires_grad (h ! a) \<or> requires_grad (h ! b)) in
      bindr (py_truediv np (data (h ! a)) (data (h ! b))) (\<lambda>d.
      bindr (Tensor np h d [a, b] ''*'' '''' rg) (\<lambda>(h1, z).
      Inr (set_backward h1 z (DivBw a b z), z))))"

definition Exp :: "'v numpy \<Rightarrow> 'v heap \<Rightarrow> ref \<Rightarrow> error + ('v heap \<times> ref)" where
  "Exp np h a =
     bindr (np_exp np (data (h ! a))) (\<lambda>d.
     bindr (Tensor np h d [a] ''exp'' '''' (requires_grad (h ! a))) (\<lambda>(h1, z).
     Inr (set_backward h1 z (ExpBw a z), z)))"

section \<open>The backward closures\<close>

text \<open>
  \<^verbatim>\<open>node._backward()\<close>: the body of the closure, statement by statement. Each
  \<^verbatim>\<open>x.grad += e\<close> evaluates \<open>e\<close> in the current store, left operand first, and then
  updates \<open>x.grad\<close>; the second statement reads the store the first one left.
\<close>

fun call_backward :: "'v numpy \<Rightarrow> 'v closure \<Rightarrow> 'v heap \<Rightarrow> error + 'v heap" where
  "call_backward np NoOp h = Inr h"
| "call_backward np (AddBw a b z) h =
     bindr (if requires_grad (h ! a) then iadd_grad np h a (grad (h ! z)) else Inr h) (\<lambda>h1.
     (if requires_grad (h1 ! b) then iadd_grad np h1 b (grad (h1 ! z)) else Inr h1))"
| "call_backward np (MulBw a b z) h =
     bindr (if requires_grad (h ! a)
            then bindr (py_mul np (data (h ! b)) (grad (h ! z))) (iadd_grad np h a)
            else Inr h) (\<lambda>h1.
     (if requires_grad (h1 ! b)
      then bindr (py_mul np (grad (h1 ! a)) (grad (h1 ! z))) (iadd_grad np h1 b)
      else Inr h1))"
| "call_backward np (NegBw a z) h =
     (if requires_grad (h ! a)
      then bindr (py_mul np (py_int np (- 1)) (grad (h ! z))) (iadd_grad np h a)
      else Inr h)"
| "call_backward np (MatmulBw a b z) h =
     bindr (if requires_grad (h ! a)
            then bindr (np_T np (data (h ! b))) (\<lambda>bT.
                 bindr (py_matmul np (grad (h ! z)) bT) (iadd_grad np h a))
            else Inr h) (\<lambda>h1.
     (if requires_grad (h1 ! b)
      then bindr (np_T np (data (h1 ! a))) (\<lambda>aT.
           bindr (py_matmul np aT (grad (h1 ! z))) (iadd_grad np h1 b))
      else Inr h1))"
| "call_backward np (PowBw a b z) h =
     (if requires_grad (h ! a)
      then bindr (py_sub np b (py_int np 1)) (\<lambda>b1.
           bindr (np_power np (data (h ! a)) b1) (\<lambda>p.
           bindr (py_mul np b p) (\<lambda>bp.
           bindr (py_mul np bp (grad (h ! z))) (iadd_grad np h a))))
      else Inr h)"
| "call_backward np (DivBw a b z) h =
     bindr (if requires_grad (h ! a)
            then bindr (py_truediv np (py_int np 1) (data (h ! b))) (\<lambda>r.
                 bindr (py_mul np (grad (h ! z)) r) (iadd_grad np h a))
            else Inr h) (\<lambda>h1.
     (if requires_grad (h1 ! b)
      then bindr (py_neg np (grad (h1 ! z))) (\<lambda>n.
           bindr (py_mul np n (data (h1 ! a))) (\<lambda>na.
           bindr (py_pow np (data (h1 ! b)) (py_int np 2)) (\<lambda>b2.
           bindr (py_truediv np na b2) (iadd_grad np h1 b))))
      else Inr h1))"
| "call_backward np (ExpBw a z) h =
     (if requires_grad (h ! a)
      then bindr (py_mul np (data (h ! z)) (grad (h ! z))) (iadd_grad np h a)
      else Inr h)"

section \<open>The operator methods of Tensor\<close>

text \<open>
  \<^verbatim>\<open>other if isinstance(other, Tensor) else Tensor(other)\<close>: a value that is not a
  Tensor becomes a new leaf, with the defaults of \<^verbatim>\<open>Tensor.__init__\<close>.
\<close>

definition coerce :: "'v numpy \<Rightarrow> 'v heap \<Rightarrow> 'v operand \<Rightarrow> error + ('v heap \<times> ref)" where
  "coerce np h other =
     (case other of Tens r \<Rightarrow> Inr (h, r) | Raw v \<Rightarrow> Tensor np h v [] '''' '''' False)"

text \<open>
  \<^verbatim>\<open>Matmul(a, b)\<close> when \<open>b\<close> is not a Tensor, line by line. Line 133 reads
  \<^verbatim>\<open>b.requires_grad\<close> unless \<^verbatim>\<open>a.requires_grad\<close> is true already; no value but a
  Tensor has that attribute. Line 135 reads \<^verbatim>\<open>b.data\<close>: a Python number has no such
  attribute, an array has one (a buffer over its entries, which \<^verbatim>\<open>@\<close> reads as the
  array), and the product may raise. \<^verbatim>\<open>Tensor.__init__\<close> then computes the zero grad
  (line 9) and builds \<^verbatim>\<open>set(_children)\<close> (line 11), which raises for the array:
  arrays are not hashable. No node is returned on any path.
\<close>

definition raw_data :: "'v numpy \<Rightarrow> 'v \<Rightarrow> error + 'v" where
  "raw_data np v = (if py_is_number np v then Inl AttributeError else py_data_attr np v)"

definition Matmul_raw :: "'v numpy \<Rightarrow> 'v heap \<Rightarrow> ref \<Rightarrow> 'v \<Rightarrow> error + ('v heap \<times> ref)" where
  "Matmul_raw np h a v =
     (if \<not> requires_grad (h ! a) then Inl AttributeError
      else bindr (raw_data np v) (\<lambda>bd.
           bindr (py_matmul np (data (h ! a)) bd) (\<lambda>d.
           bindr (np_zeros_like np d) (\<lambda>g. Inl TypeError))))"

definition Tensor_add :: "'v numpy \<Rightarrow> 'v heap \<Rightarrow> ref \<Rightarrow> 'v operand \<Rightarrow> error + ('v heap \<times> ref)" where
  "Tensor_add np h self other = bindr (coerce np h other) (\<lambda>(h1, b). Add np h1 self b)"

definition Tensor_radd :: "'v numpy \<Rightarrow> 'v heap \<Rightarrow> ref \<Rightarrow> 'v operand \<Rightarrow> error + ('v heap \<times> ref)" where
  "Tensor_radd np h self other = Tensor_add np h self other"

definition Tensor_mul :: "'v numpy \<Rightarrow> 'v heap \<Rightarrow> ref \<Rightarrow> 'v operand \<Rightarrow> error + ('v heap \<times> ref)" where
  "Tensor_mul np h self other = bindr (coerce np h other) (\<lambda>(h1, b). Mul np h1 self b)"

definition Tensor_rmul :: "'v numpy \<Rightarrow> 'v heap \<Rightarrow> ref \<Rightarrow> 'v operand \<Rightarrow> error + ('v heap \<times> ref)" where
  "Tensor_rmul np h self other = Tensor_mul np h self other"

definition Tensor_neg :: "'v numpy \<Rightarrow> 'v heap \<Rightarrow> ref \<Rightarrow> error + ('v heap \<times> ref)" where
  "Tensor_neg np h self = Neg np h self"

text \<open>\<^verbatim>\<open>self + (-other)\<close>: \<open>__neg__\<close> of the coerced operand, then \<open>__add__\<close>.\<close>

definition Tensor_sub :: "'v numpy \<Rightarrow> 'v heap \<Rightarrow> ref \<Rightarrow> 'v operand \<Rightarrow> error + ('v heap \<times> ref)" where
  "Tensor_sub np h self other =
     bindr (coerce np h other) (\<lambda>(h1, b).
     bindr (Tensor_neg np h1 b) (\<lambda>(h2, nb).
     Tensor_add np h2 self (Tens nb)))"

text \<open>\<^verbatim>\<open>__rsub__\<close> is called for \<^verbatim>\<open>other - self\<close>; it returns \<^verbatim>\<open>self - other\<close>.\<close>

definition Tensor_rsub :: "'v numpy \<Rightarrow> 'v heap \<Rightarrow> ref \<Rightarrow> 'v operand \<Rightarrow> error + ('v heap \<times> ref)" where
  "Tensor_rsub np h self other = Tensor_sub np h self other"

text \<open>\<^verbatim>\<open>__matmul__\<close> hands its operand to \<^verbatim>\<open>Matmul\<close> as it is.\<close>

definition Tensor_matmul :: "'v numpy \<Rightarrow> 'v heap \<Rightarrow> ref \<Rightarrow> 'v operand \<Rightarrow> error + ('v heap \<times> ref)" where
  "Tensor_matmul np h self other =
     (case other of Tens b \<Rightarrow> Matmul np h self b | Raw v \<Rightarrow> Matmul_raw np h self v)"

text \<open>
  \<^verbatim>\<open>assert isinstance(other, (int, float))\<close>, with assertions enabled, as Python runs
  them by default. A Tensor is neither an int nor a float.
\<close>

definition Tensor_pow :: "'v numpy \<Rightarrow> 'v heap \<Rightarrow> ref \<Rightarrow> 'v operand \<Rightarrow> error + ('v heap \<times> ref)" where
  "Tensor_pow np h self other =
     (case other of
        Tens r \<Rightarrow> Inl AssertionError
      | Raw v \<Rightarrow> if py_is_number np v then Pow_op np h self v else Inl AssertionError)"

definition Tensor_truediv :: "'v numpy \<Rightarrow> 'v heap \<Rightarrow> ref \<Rightarrow> 'v operand \<Rightarrow> error + ('v heap \<times> ref)" where
  "Tensor_truediv np h self other = bindr (coerce np h other) (\<lambda>(h1, b). Div np h1 self b)"

definition Tensor_exp :: "'v numpy \<Rightarrow> 'v heap \<Rightarrow> ref \<Rightarrow> error + ('v heap \<times> ref)" where
  "Tensor_exp np h self = Exp np h self"

section \<open>The backward driver\<close>

text \<open>
  The children of a node, in the order \<^verbatim>\<open>for child in v._prev\<close> meets them. A reference
  always denotes an object of the store; an index outside the store has no children.
\<close>

definition prev_of :: "'v heap \<Rightarrow> ref \<Rightarrow> ref list" where
  "prev_of h v = (if v < length h then prev (h ! v) else [])"

text \<open>
  \<^verbatim>\<open>build_topo\<close>, the local function of \<^verbatim>\<open>Tensor.backward\<close>, with the two variables it
  closes over (\<^verbatim>\<open>visited\<close> and \<^verbatim>\<open>topo\<close>) passed in and returned. The \<^verbatim>\<open>for\<close> loop over
  the children is \<open>build_topo_children\<close>.
\<close>

function build_topo :: "'v heap \<Rightarrow> ref \<Rightarrow> ref set \<times> ref list \<Rightarrow> ref set \<times> ref list"
  and build_topo_children :: "'v heap \<Rightarrow> ref list \<Rightarrow> ref set \<times> ref list \<Rightarrow> ref set \<times> ref list"
where
  "build_topo h v (visited, topo) =
     (if v \<notin> visited then
        (let (visited1, topo1) = build_topo_children h (prev_of h v) (insert v visited, topo)
         in (visited1, topo1 @ [v]))
      else (visited, topo))"
| "build_topo_children h [] st = st"
| "build_topo_children h (child # rest) st = build_topo_children h rest (build_topo h child st)"
  by pat_completeness auto

lemma visited_grows:
  "build_topo_build_topo_children_dom (Inl (h, v, st)) \<Longrightarrow> fst st \<subseteq> fst (build_topo h v st)"
  "build_topo_build_topo_children_dom (Inr (h, cs, st)) \<Longrightarrow>
     fst st \<subseteq> fst (build_topo_children h cs st)"
proof (induct h v st and h cs st rule: build_topo_build_topo_children.pinduct)
  case (1 h v visited topo)
  then show ?case
    by (auto simp: build_topo.psimps split: prod.splits)
next
  case (2 h st)
  then show ?case by (simp add: build_topo_children.psimps)
next
  case (3 h child rest st)
  then show ?case by (auto simp: build_topo_children.psimps)
qed

text \<open>
  Every call either marks a new object of the store as visited, or works on a shorter
  list of children with no fewer objects visited: the traversal ends on every store,
  cyclic or not.
\<close>

termination build_topo
proof (relation "measures [
    (\<lambda>x. case x of Inl (h, v, st) \<Rightarrow> card ({..<length h} - fst st)
                  | Inr (h, cs, st) \<Rightarrow> card ({..<length h} - fst st)),
    (\<lambda>x. case x of Inl (h, v, st) \<Rightarrow> 1 | Inr (h, cs, st) \<Rightarrow> (if cs = [] then 0 else 2)),
    (\<lambda>x. case x of Inl (h, v, st) \<Rightarrow> 0 | Inr (h, cs, st) \<Rightarrow> length cs)]", goal_cases)
  case 1
  then show ?case by simp
next
  case (2 h v visited topo)
  show ?case
  proof (cases "v < length h")
    case True
    have "card ({..<length h} - insert v visited) < card ({..<length h} - visited)"
      using True 2 by (intro psubset_card_mono) auto
    then show ?thesis by simp
  next
    case False
    then have "{..<length h} - insert v visited = {..<length h} - visited" by auto
    then show ?thesis using False by (simp add: prev_of_def)
  qed
next
  case (3 h child rest st)
  then show ?case by simp
next
  case (4 h child rest st)
  have "fst st \<subseteq> fst (build_topo h child st)" using 4 by (rule visited_grows(1))
  then have "card ({..<length h} - fst (build_topo h child st)) \<le> card ({..<length h} - fst st)"
    by (intro card_mono) auto
  then show ?case by auto
qed

text \<open>The order \<^verbatim>\<open>topo\<close> that \<^verbatim>\<open>build_topo(self)\<close> leaves behind.\<close>

definition topo_order :: "'v heap \<Rightarrow> ref \<Rightarrow> ref list" where
  "topo_order h self = snd (build_topo h self ({}, []))"

text \<open>\<^verbatim>\<open>for node in ...: node._backward()\<close>: the loop stops at the first exception.\<close>

fun run_backwards :: "'v numpy \<Rightarrow> ref list \<Rightarrow> 'v heap \<Rightarrow> error + 'v heap" where
  "run_backwards np [] h = Inr h"
| "run_backwards np (node # rest) h =
     bindr (call_backward np (backward_fn (h ! node)) h) (run_backwards np rest)"

text \<open>
  \<^verbatim>\<open>Tensor.backward\<close>. The \<^verbatim>\<open>print(topo)\<close> of the source writes to standard output and
  changes no object; it is left out.
\<close>

definition backward :: "'v numpy \<Rightarrow> 'v heap \<Rightarrow> ref \<Rightarrow> error + 'v heap" where
  "backward np h self =
     (let topo = topo_order h self in
      bindr (np_ones_like np (data (h ! self))) (\<lambda>g.
      run_backwards np (rev topo) (set_grad h self g)))"

section \<open>An exact array library\<close>

text \<open>
  One library that fits the interface, for running the engine on concrete inputs: Python
  numbers and arrays of rank at most two over the reals, an array being its shape and
  its entries in row-major order. Arithmetic is exact. Elementwise operations take two
  arrays of the same shape, or an array and a number; other combinations are rejected
  with \<open>ValueError\<close>, as are arrays whose entries do not fit their shape. Division by a
  zero entry is rejected with \<open>ZeroDivisionError\<close>.
\<close>

datatype val = PyNum real | NdArray "nat list" "real list"

fun like :: "real \<Rightarrow> val \<Rightarrow> error + val" where
  "like c (PyNum x) = Inr (NdArray [] [c])"
| "like c (NdArray s xs) = Inr (NdArray s (map (\<lambda>_. c) xs))"

fun elementwise :: "(real \<Rightarrow> real \<Rightarrow> real) \<Rightarrow> val \<Rightarrow> val \<Rightarrow> error + val" where
  "elementwise f (PyNum x) (PyNum y) = Inr (PyNum (f x y))"
| "elementwise f (PyNum x) (NdArray t ys) = Inr (NdArray t (map (f x) ys))"
| "elementwise f (NdArray s xs) (PyNum y) = Inr (NdArray s (map (\<lambda>x. f x y) xs))"
| "elementwise f (NdArray s xs) (NdArray t ys) =
     (if s = t \<and> length xs = length ys then Inr (NdArray s (map2 f xs ys)) else Inl ValueError)"

fun entries :: "val \<Rightarrow> real list" where
  "entries (PyNum x) = [x]"
| "entries (NdArray s xs) = xs"

definition divide_val :: "val \<Rightarrow> val \<Rightarrow> error + val" where
  "divide_val x y = (if 0 \<in> set (entries y) then Inl ZeroDivisionError else elementwise (/) x y)"

text \<open>Powers: an integral exponent is a repeated product, any other one is \<open>powr\<close>.\<close>

definition rpow :: "real \<Rightarrow> real \<Rightarrow> real" where
  "rpow x p = (if p = of_int \<lfloor>p\<rfloor> then x powi \<lfloor>p\<rfloor> else x powr p)"

fun unary :: "(real \<Rightarrow> real) \<Rightarrow> val \<Rightarrow> error + val" where
  "unary f (PyNum x) = Inr (PyNum (f x))"
| "unary f (NdArray s xs) = Inr (NdArray s (map f xs))"

fun transpose_val :: "val \<Rightarrow> error + val" where
  "transpose_val (PyNum x) = Inl AttributeError"
| "transpose_val (NdArray [m, n] xs) =
     (if length xs = m * n
      then Inr (NdArray [n, m] (map (\<lambda>p. xs ! ((p mod m) * n + p div m)) [0..<n * m]))
      else Inl ValueError)"
| "transpose_val (NdArray [] xs) = Inr (NdArray [] xs)"
| "transpose_val (NdArray [n] xs) = Inr (NdArray [n] xs)"
| "transpose_val (NdArray s xs) = Inl ValueError"

fun matmul_val :: "val \<Rightarrow> val \<Rightarrow> error + val" where
  "matmul_val (NdArray [m, k] xs) (NdArray [k', n] ys) =
     (if k = k' \<and> length xs = m * k \<and> length ys = k * n
      then Inr (NdArray [m, n]
             (map (\<lambda>p. \<Sum>l\<leftarrow>[0..<k]. xs ! ((p div n) * k + l) * ys ! (l * n + p mod n))
                  [0..<m * n]))
      else Inl ValueError)"
| "matmul_val x y = Inl ValueError"

fun shape_val :: "val \<Rightarrow> error + nat list" where
  "shape_val (PyNum x) = Inl AttributeError"
| "shape_val (NdArray s xs) = Inr s"

fun is_number :: "val \<Rightarrow> bool" where
  "is_number (PyNum x) = True"
| "is_number (NdArray s xs) = False"

fun data_attr_val :: "val \<Rightarrow> error + val" where
  "data_attr_val (PyNum x) = Inl AttributeError"
| "data_attr_val (NdArray s xs) = Inr (NdArray s xs)"

definition exact :: "val numpy" where
  "exact = \<lparr>np_zeros_like = like 0, np_ones_like = like 1,
            np_power = elementwise rpow, np_exp = unary exp,
            np_T = transpose_val, np_shape = shape_val,
            py_add = elementwise (+), py_sub = elementwise (-), py_mul = elementwise (*),
            py_truediv = divide_val, py_matmul = matmul_val, py_pow = elementwise rpow,
            py_neg = unary uminus, py_iadd = elementwise (+),
            py_int = (\<lambda>i. PyNum (of_int i)), py_is_number = is_number,
            py_data_attr = data_attr_val\<rparr>"

text \<open>A leaf made by the caller: \<^verbatim>\<open>Tensor(d, requires_grad=rg)\<close>.\<close>

definition leaf :: "'v numpy \<Rightarrow> 'v heap \<Rightarrow> 'v \<Rightarrow> bool \<Rightarrow> error + ('v heap \<times> ref)" where
  "leaf np h d rg = Tensor np h d [] '''' '''' rg"

section \<open>Example stores\<close>

text \<open>
  Two leaves holding the 1 by 1 arrays \<open>[[2]]\<close> and \<open>[[3]]\<close>; the first one requires a
  gradient, the second one does not.
\<close>

definition two_leaves :: "val heap" where
  "two_leaves =
     [\<lparr>data = NdArray [1, 1] [2], children = [], grad = NdArray [1, 1] [0],
       backward_fn = NoOp, prev = [], op = '''', label = '''', requires_grad = True\<rparr>,
      \<lparr>data = NdArray [1, 1] [3], children = [], grad = NdArray [1, 1] [0],
       backward_fn = NoOp, prev = [], op = '''', label = '''', requires_grad = False\<rparr>]"

text \<open>Two leaves holding a 2 by 3 and a 3 by 2 matrix, both requiring a gradient.\<close>

definition two_matrices :: "val heap" where
  "two_matrices =
     [\<lparr>data = NdArray [2, 3] [1, 2, 3, 4, 5, 6], children = [],
       grad = NdArray [2, 3] [0, 0, 0, 0, 0, 0],
       backward_fn = NoOp, prev = [], op = '''', label = '''', requires_grad = True\<rparr>,
      \<lparr>data = NdArray [3, 2] [1, 0, 0, 1, 1, 1], children = [],
       grad = NdArray [3, 2] [0, 0, 0, 0, 0, 0],
       backward_fn = NoOp, prev = [], op = '''', label = '''', requires_grad = True\<rparr>]"

section \<open>Notions used in the statements\<close>

text \<open>
  A law of the array library: adding \<open>y * (-1)\<close> is subtracting \<open>y\<close>. It holds of numpy
  and of the exact library.
\<close>

definition negation_law :: "'v numpy \<Rightarrow> bool" where
  "negation_law np \<longleftrightarrow>
     (\<forall>x y m. py_mul np y (py_int np (- 1)) = Inr m \<longrightarrow> py_add np x m = py_sub np x y)"

text \<open>
  The children relation of a store, the nodes reachable from a node through it, and
  what it means for a list of nodes to be in post-order: every node stands after all
  its children. In a store built by the constructors every child is older than its
  parent, so the relation has no cycle.
\<close>

definition child_rel :: "'v heap \<Rightarrow> (ref \<times> ref) set" where
  "child_rel h = {(p, c). c \<in> set (prev_of h p)}"

definition reachable :: "'v heap \<Rightarrow> ref \<Rightarrow> ref set" where
  "reachable h v = (child_rel h)\<^sup>* `` {v}"

definition acyclic_store :: "'v heap \<Rightarrow> bool" where
  "acyclic_store h \<longleftrightarrow> (\<forall>n < length h. \<forall>c \<in> set (prev (h ! n)). c < n)"

definition post_order :: "'v heap \<Rightarrow> ref list \<Rightarrow> bool" where
  "post_order h topo \<longleftrightarrow>
     (\<forall>i < length topo. \<forall>c \<in> set (prev_of h (topo ! i)). c \<in> set (take i topo))"

text \<open>
  The laws of shapes that the array library obeys, as numpy and the exact library do: a
  matrix product of an \<open>m\<close> by \<open>k\<close> and a \<open>k\<close> by \<open>n\<close> array is \<open>m\<close> by \<open>n\<close>;
  transposing swaps the two dimensions; in-place addition keeps the shape of its
  target; \<open>zeros_like\<close> keeps the shape of its argument.
\<close>

definition shape_laws :: "'v numpy \<Rightarrow> bool" where
  "shape_laws np \<longleftrightarrow>
     (\<forall>x y r m k n. py_matmul np x y = Inr r \<and> np_shape np x = Inr [m, k] \<and>
        np_shape np y = Inr [k, n] \<longrightarrow> np_shape np r = Inr [m, n]) \<and>
     (\<forall>x t m n. np_T np x = Inr t \<and> np_shape np x = Inr [m, n] \<longrightarrow> np_shape np t = Inr [n, m]) \<and>
     (\<forall>x y r s. py_iadd np x y = Inr r \<and> np_shape np x = Inr s \<longrightarrow> np_shape np r = Inr s) \<and>
     (\<forall>x g s. np_zeros_like np x = Inr g \<and> np_shape np x = Inr s \<longrightarrow> np_shape np g = Inr s)"

text \<open>
  Two relations between a store and a later state of it. \<open>same_graph\<close>: the two differ
  in the \<open>grad\<close> fields at most. \<open>writes_only X\<close>: moreover, only nodes of \<open>X\<close> that
  require a gradient have a different \<open>grad\<close>. Every statement of a closure has the form
  \<^verbatim>\<open>if x.requires_grad: x.grad += e\<close>, so it writes to \<open>x\<close> only.
\<close>

definition same_graph :: "'v heap \<Rightarrow> 'v heap \<Rightarrow> bool" where
  "same_graph h h' \<longleftrightarrow>
     length h' = length h \<and>
     (\<forall>n. data (h' ! n) = data (h ! n) \<and> requires_grad (h' ! n) = requires_grad (h ! n) \<and>
          backward_fn (h' ! n) = backward_fn (h ! n) \<and> prev (h' ! n) = prev (h ! n))"

definition writes_only :: "ref set \<Rightarrow> 'v heap \<Rightarrow> 'v heap \<Rightarrow> bool" where
  "writes_only X h h' \<longleftrightarrow>
     same_graph h h' \<and> (\<forall>n. n \<notin> X \<or> \<not> requires_grad (h ! n) \<longrightarrow> grad (h' ! n) = grad (h ! n))"

text \<open>The operands a closure has captured: the only objects it writes to.\<close>

fun operands :: "'v closure \<Rightarrow> ref set" where
  "operands NoOp = {}"
| "operands (AddBw a b z) = {a, b}"
| "operands (MulBw a b z) = {a, b}"
| "operands (NegBw a z) = {a}"
| "operands (MatmulBw a b z) = {a, b}"
| "operands (PowBw a p z) = {a}"
| "operands (DivBw a b z) = {a, b}"
| "operands (ExpBw a z) = {a}"

text \<open>
  The result node a closure has captured, and the stores the constructors build: every
  child is older than its parent, a closure writes to children of its node only, and
  the result it has captured is its own node.
\<close>

fun result_of :: "'v closure \<Rightarrow> ref set" where
  "result_of NoOp = {}"
| "result_of (AddBw a b z) = {z}"
| "result_of (MulBw a b z) = {z}"
| "result_of (NegBw a z) = {z}"
| "result_of (MatmulBw a b z) = {z}"
| "result_of (PowBw a p z) = {z}"
| "result_of (DivBw a b z) = {z}"
| "result_of (ExpBw a z) = {z}"

definition wf_store :: "'v heap \<Rightarrow> bool" where
  "wf_store h \<longleftrightarrow>
     (\<forall>n < length h. (\<forall>c \<in> set (prev (h ! n)). c < n) \<and>
        operands (backward_fn (h ! n)) \<subseteq> set (prev (h ! n)) \<and>
        result_of (backward_fn (h ! n)) \<subseteq> {n})"

text \<open>Adding a list of addends in place, one after the other.\<close>

fun iadd_all :: "'v numpy \<Rightarrow> 'v \<Rightarrow> 'v list \<Rightarrow> error + 'v" where
  "iadd_all np g [] = Inr g"
| "iadd_all np g (d # ds) = bindr (py_iadd np g d) (\<lambda>g'. iadd_all np g' ds)"

text \<open>The leaf that an operator method makes of an operand that is not a Tensor.\<close>

definition raw_leaf :: "'v \<Rightarrow> 'v \<Rightarrow> 'v tensor" where
  "raw_leaf v g = \<lparr>data = v, children = [], grad = g, backward_fn = NoOp, prev = [],
                   op = '''', label = '''', requires_grad = False\<rparr>"

section \<open>Basic facts about the store\<close>

lemma bindr_Inr [simp]: "bindr (Inr x) f = f x"
  by (simp add: bindr_def)

lemma bindr_Inl [simp]: "bindr (Inl e) f = Inl e"
  by (simp add: bindr_def)

lemma bindr_eq_Inr: "bindr m f = Inr y \<longleftrightarrow> (\<exists>x. m = Inr x \<and> f x = Inr y)"
  by (cases m) simp_all

lemma Tensor_Inr:
  "Tensor np h d cs opn lbl rg = Inr (h1, z) \<longleftrightarrow>
     (\<exists>g. np_zeros_like np d = Inr g \<and> z = length h \<and>
          h1 = h @ [\<lparr>data = d, children = [], grad = g, backward_fn = NoOp,
                     prev = remdups cs, op = opn, label = lbl, requires_grad = rg\<rparr>])"
  by (auto simp: Tensor_def bindr_eq_Inr)

lemma set_backward_new [simp]:
  "set_backward (h @ [t]) (length h) c = h @ [t\<lparr>backward_fn := c\<rparr>]"
  by (simp add: set_backward_def)

lemma length_set_grad [simp]: "length (set_grad h x g) = length h"
  by (simp add: set_grad_def)

lemma set_grad_other [simp]: "n \<noteq> x \<Longrightarrow> set_grad h x g ! n = h ! n"
  by (simp add: set_grad_def)

lemma set_grad_same: "x < length h \<Longrightarrow> set_grad h x g ! x = (h ! x)\<lparr>grad := g\<rparr>"
  by (simp add: set_grad_def)

lemma set_grad_nth:
  "set_grad h x g ! n = (if n = x \<and> x < length h then (h ! x)\<lparr>grad := g\<rparr> else h ! n)"
  by (cases "x < length h") (simp_all add: set_grad_def list_update_beyond)

lemma set_grad_fields [simp]:
  "data (set_grad h x g ! n) = data (h ! n)"
  "requires_grad (set_grad h x g ! n) = requires_grad (h ! n)"
  "backward_fn (set_grad h x g ! n) = backward_fn (h ! n)"
  "prev (set_grad h x g ! n) = prev (h ! n)"
  by (simp_all add: set_grad_nth)

lemma grad_set_grad: "x < length h \<Longrightarrow> grad (set_grad h x g ! x) = g"
  by (simp add: set_grad_def)

text \<open>The result of each constructor, spelled out.\<close>

lemma Add_Inr:
  "Add np h a b = Inr (h', z) \<longleftrightarrow>
     (\<exists>d g. py_add np (data (h ! a)) (data (h ! b)) = Inr d \<and> np_zeros_like np d = Inr g \<and>
        z = length h \<and>
        h' = h @ [\<lparr>data = d, children = [], grad = g, backward_fn = AddBw a b (length h),
                   prev = remdups [a, b], op = ''+'', label = '''',
                   requires_grad = (requires_grad (h ! a) \<or> requires_grad (h ! b))\<rparr>])"
  by (auto simp: Add_def Let_def bindr_eq_Inr Tensor_Inr)

lemma Mul_Inr:
  "Mul np h a b = Inr (h', z) \<longleftrightarrow>
     (\<exists>d g. py_mul np (data (h ! a)) (data (h ! b)) = Inr d \<and> np_zeros_like np d = Inr g \<and>
        z = length h \<and>
        h' = h @ [\<lparr>data = d, children = [], grad = g, backward_fn = MulBw a b (length h),
                   prev = remdups [a, b], op = ''*'', label = '''',
                   requires_grad = (requires_grad (h ! a) \<or> requires_grad (h ! b))\<rparr>])"
  by (auto simp: Mul_def Let_def bindr_eq_Inr Tensor_Inr)

lemma Neg_Inr:
  "Neg np h a = Inr (h', z) \<longleftrightarrow>
     (\<exists>d g. py_mul np (data (h ! a)) (py_int np (- 1)) = Inr d \<and> np_zeros_like np d = Inr g \<and>
        z = length h \<and>
        h' = h @ [\<lparr>data = d, children = [], grad = g, backward_fn = NegBw a (length h),
                   prev = remdups [a], op = ''neg'', label = '''',
                   requires_grad = requires_grad (h ! a)\<rparr>])"
  by (auto simp: Neg_def bindr_eq_Inr Tensor_Inr)

lemma Matmul_Inr:
  "Matmul np h a b = Inr (h', z) \<longleftrightarrow>
     (\<exists>d g. py_matmul np (data (h ! a)) (data (h ! b)) = Inr d \<and> np_zeros_like np d = Inr g \<and>
        z = length h \<and>
        h' = h @ [\<lparr>data = d, children = [], grad = g, backward_fn = MatmulBw a b (length h),
                   prev = remdups [a, b], op = ''@'', label = '''',
                   requires_grad = (requires_grad (h ! a) \<or> requires_grad (h ! b))\<rparr>])"
  by (auto simp: Matmul_def Let_def bindr_eq_Inr Tensor_Inr)

lemma Pow_op_Inr:
  "Pow_op np h a p = Inr (h', z) \<longleftrightarrow>
     (\<exists>d g. np_power np (data (h ! a)) p = Inr d \<and> np_zeros_like np d = Inr g \<and>
        z = length h \<and>
        h' = h @ [\<lparr>data = d, children = [], grad = g, backward_fn = PowBw a p (length h),
                   prev = remdups [a], op = ''pow'', label = '''',
                   requires_grad = requires_grad (h ! a)\<rparr>])"
  by (auto simp: Pow_op_def bindr_eq_Inr Tensor_Inr)

lemma Div_Inr:
  "Div np h a b = Inr (h', z) \<longleftrightarrow>
     (\<exists>d g. py_truediv np (data (h ! a)) (data (h ! b)) = Inr d \<and> np_zeros_like np d = Inr g \<and>
        z = length h \<and>
        h' = h @ [\<lparr>data = d, children = [], grad = g, backward_fn = DivBw a b (length h),
                   prev = remdups [a, b], op = ''*'', label = '''',
                   requires_grad = (requires_grad (h ! a) \<or> requires_grad (h ! b))\<rparr>])"
  by (auto simp: Div_def Let_def bindr_eq_Inr Tensor_Inr)

lemma Exp_Inr:
  "Exp np h a = Inr (h', z) \<longleftrightarrow>
     (\<exists>d g. np_exp np (data (h ! a)) = Inr d \<and> np_zeros_like np d = Inr g \<and>
        z = length h \<and>
        h' = h @ [\<lparr>data = d, children = [], grad = g, backward_fn = ExpBw a (length h),
                   prev = remdups [a], op = ''exp'', label = '''',
                   requires_grad = requires_grad (h ! a)\<rparr>])"
  by (auto simp: Exp_def bindr_eq_Inr Tensor_Inr)

lemma coerce_Inr:
  "coerce np h other = Inr (h1, b) \<longleftrightarrow>
     (case other of
        Tens r \<Rightarrow> h1 = h \<and> b = r
      | Raw v \<Rightarrow> (\<exists>g. np_zeros_like np v = Inr g \<and> b = length h \<and>
                  h1 = h @ [\<lparr>data = v, children = [], grad = g, backward_fn = NoOp,
                             prev = [], op = '''', label = '''', requires_grad = False\<rparr>]))"
  by (cases other) (auto simp: coerce_def Tensor_Inr)

lemma Sub_requires_grad:
  assumes "a < length h" "b < length h" "Tensor_sub np h a (Tens b) = Inr (h8, z8)"
  shows "requires_grad (h8 ! z8) = (requires_grad (h ! a) \<or> requires_grad (h ! b))"
proof -
  from assms(3) obtain hn nb where n: "Neg np h b = Inr (hn, nb)"
    and s: "Add np hn a nb = Inr (h8, z8)"
    by (auto simp: Tensor_sub_def Tensor_add_def Tensor_neg_def coerce_def bindr_eq_Inr)
  from n obtain t where hn: "hn = h @ [t]" "nb = length h"
    "requires_grad t = requires_grad (h ! b)"
    by (auto simp: Neg_Inr)
  from s obtain t' where h8: "h8 = hn @ [t']" "z8 = length hn"
    "requires_grad t' = (requires_grad (hn ! a) \<or> requires_grad (hn ! nb))"
    by (auto simp: Add_Inr)
  show ?thesis
    using assms(1) by (simp add: h8 hn nth_append)
qed

section \<open>What a backward closure can change\<close>

lemma iadd_grad_Inr:
  "iadd_grad np h x v = Inr h' \<longleftrightarrow> (\<exists>g. py_iadd np (grad (h ! x)) v = Inr g \<and> h' = set_grad h x g)"
  by (auto simp: iadd_grad_def bindr_eq_Inr)

lemma same_graph_refl [simp]: "same_graph h h"
  by (simp add: same_graph_def)

lemma same_graph_trans: "same_graph h h1 \<Longrightarrow> same_graph h1 h2 \<Longrightarrow> same_graph h h2"
  by (simp add: same_graph_def)

lemma same_graph_set_grad [simp]: "same_graph h (set_grad h x g)"
  by (simp add: same_graph_def)

lemma writes_only_refl [simp]: "writes_only X h h"
  by (simp add: writes_only_def)

lemma writes_only_trans:
  "writes_only X h h1 \<Longrightarrow> writes_only Y h1 h2 \<Longrightarrow> writes_only (X \<union> Y) h h2"
  unfolding writes_only_def same_graph_def by auto

lemma writes_only_mono: "writes_only X h h' \<Longrightarrow> X \<subseteq> Y \<Longrightarrow> writes_only Y h h'"
  unfolding writes_only_def by auto

lemma guarded_iadd:
  assumes "(if requires_grad (h ! x) then bindr m (iadd_grad np h x) else Inr h) = Inr h'"
  shows "writes_only {x} h h'"
proof (cases "requires_grad (h ! x)")
  case True
  with assms obtain v g where "h' = set_grad h x g"
    by (auto simp: bindr_eq_Inr iadd_grad_Inr)
  with True show ?thesis by (simp add: writes_only_def set_grad_nth)
next
  case False
  with assms show ?thesis by simp
qed

lemma guarded_iadd0:
  assumes "(if requires_grad (h ! x) then iadd_grad np h x v else Inr h) = Inr h'"
  shows "writes_only {x} h h'"
proof -
  have "bindr (Inr v) (iadd_grad np h x) = iadd_grad np h x v" by simp
  with assms guarded_iadd [of h x "Inr v" np h'] show ?thesis by metis
qed

lemma call_backward_writes:
  assumes "call_backward np c h = Inr h'"
  shows "writes_only (operands c) h h'"
proof (cases c)
  case NoOp
  with assms show ?thesis by simp
next
  case (AddBw a b z)
  with assms obtain h1 where
    1: "(if requires_grad (h ! a) then iadd_grad np h a (grad (h ! z)) else Inr h) = Inr h1" and
    2: "(if requires_grad (h1 ! b) then iadd_grad np h1 b (grad (h1 ! z)) else Inr h1) = Inr h'"
    by (auto simp: bindr_eq_Inr)
  from writes_only_trans [OF guarded_iadd0 [OF 1] guarded_iadd0 [OF 2]] AddBw
  show ?thesis by (simp add: insert_commute)
next
  case (MulBw a b z)
  with assms obtain h1 where
    1: "(if requires_grad (h ! a)
         then bindr (py_mul np (data (h ! b)) (grad (h ! z))) (iadd_grad np h a)
         else Inr h) = Inr h1" and
    2: "(if requires_grad (h1 ! b)
         then bindr (py_mul np (grad (h1 ! a)) (grad (h1 ! z))) (iadd_grad np h1 b)
         else Inr h1) = Inr h'"
    by (auto simp: bindr_eq_Inr)
  from writes_only_trans [OF guarded_iadd [OF 1] guarded_iadd [OF 2]] MulBw
  show ?thesis by (simp add: insert_commute)
next
  case (NegBw a z)
  with assms guarded_iadd [of h a _ np h'] show ?thesis by simp
next
  case (MatmulBw a b z)
  with assms obtain h1 where
    1: "(if requires_grad (h ! a)
         then bindr (bindr (np_T np (data (h ! b))) (py_matmul np (grad (h ! z))))
                (iadd_grad np h a)
         else Inr h) = Inr h1" and
    2: "(if requires_grad (h1 ! b)
         then bindr (bindr (np_T np (data (h1 ! a))) (\<lambda>aT. py_matmul np aT (grad (h1 ! z))))
                (iadd_grad np h1 b)
         else Inr h1) = Inr h'"
    by (auto simp: bindr_eq_Inr split: if_splits)
  from writes_only_trans [OF guarded_iadd [OF 1] guarded_iadd [OF 2]] MatmulBw
  show ?thesis by (simp add: insert_commute)
next
  case (PowBw a p z)
  with assms have
    "(if requires_grad (h ! a)
      then bindr (bindr (py_sub np p (py_int np 1)) (\<lambda>b1.
                  bindr (np_power np (data (h ! a)) b1) (\<lambda>q.
                  bindr (py_mul np p q) (\<lambda>bp. py_mul np bp (grad (h ! z))))))
             (iadd_grad np h a)
      else Inr h) = Inr h'"
    by (auto simp: bindr_eq_Inr split: if_splits)
  from guarded_iadd [OF this] PowBw show ?thesis by simp
next
  case (DivBw a b z)
  with assms obtain h1 where
    1: "(if requires_grad (h ! a)
         then bindr (bindr (py_truediv np (py_int np 1) (data (h ! b)))
                       (py_mul np (grad (h ! z))))
                (iadd_grad np h a)
         else Inr h) = Inr h1" and
    2: "(if requires_grad (h1 ! b)
         then bindr (bindr (py_neg np (grad (h1 ! z))) (\<lambda>n.
                     bindr (py_mul np n (data (h1 ! a))) (\<lambda>na.
                     bindr (py_pow np (data (h1 ! b)) (py_int np 2)) (py_truediv np na))))
                (iadd_grad np h1 b)
         else Inr h1) = Inr h'"
    by (auto simp: bindr_eq_Inr split: if_splits)
  from writes_only_trans [OF guarded_iadd [OF 1] guarded_iadd [OF 2]] DivBw
  show ?thesis by (simp add: insert_commute)
next
  case (ExpBw a z)
  with assms guarded_iadd [of h a _ np h'] show ?thesis by simp
qed


section \<open>What the backward driver can change\<close>

lemma run_backwards_writes:
  "run_backwards np ns h = Inr h' \<Longrightarrow>
     writes_only (\<Union>n\<in>set ns. operands (backward_fn (h ! n))) h h'"
proof (induction ns arbitrary: h)
  case Nil
  then show ?case by simp
next
  case (Cons n ns)
  from Cons.prems obtain h1 where
    1: "call_backward np (backward_fn (h ! n)) h = Inr h1" and 2: "run_backwards np ns h1 = Inr h'"
    by (auto simp: bindr_eq_Inr)
  have w1: "writes_only (operands (backward_fn (h ! n))) h h1"
    by (rule call_backward_writes [OF 1])
  then have same: "\<And>m. backward_fn (h1 ! m) = backward_fn (h ! m)"
    by (simp add: writes_only_def same_graph_def)
  from Cons.IH [OF 2] same
  have w2: "writes_only (\<Union>m\<in>set ns. operands (backward_fn (h ! m))) h1 h'" by simp
  from writes_only_trans [OF w1 w2] show ?case by simp
qed

lemma run_backwards_no_grad:
  assumes "run_backwards np ns h = Inr h'" and "\<not> requires_grad (h ! n)"
  shows "grad (h' ! n) = grad (h ! n)"
  using run_backwards_writes [OF assms(1)] assms(2) by (simp add: writes_only_def)

lemma backward_Inr:
  "backward np h self = Inr h' \<longleftrightarrow>
     (\<exists>g. np_ones_like np (data (h ! self)) = Inr g \<and>
          run_backwards np (rev (topo_order h self)) (set_grad h self g) = Inr h')"
  by (simp add: backward_def Let_def bindr_eq_Inr)

text \<open>The definitions to unfold when the engine is run on a concrete store.\<close>

lemmas run_defs = exact_def bindr_def leaf_def Tensor_def set_backward_def set_grad_def
  iadd_grad_def backward_def topo_order_def prev_of_def Let_def

section \<open>Facts about the exact library\<close>

lemma rpow_nat [simp]: "rpow x (numeral k) = x ^ numeral k"
  by (simp add: rpow_def)

lemma map2_add_neg: "length xs = length ys \<Longrightarrow>
    map2 (+) xs (map uminus ys) = map2 (-) xs (ys :: real list)"
  by (induction xs ys rule: list_induct2) simp_all

lemma exact_negation_law: "negation_law exact"
  unfolding negation_law_def
proof (intro allI impI)
  fix x y m :: val
  assume "py_mul exact y (py_int exact (- 1)) = Inr m"
  then show "py_add exact x m = py_sub exact x y"
    by (cases x; cases y) (auto simp: exact_def map2_add_neg)
qed

section \<open>The traversal\<close>

text \<open>The invariant of the traversal and what a call adds to the two variables.\<close>

definition dfs_inv :: "'v heap \<Rightarrow> ref set \<times> ref list \<Rightarrow> ref set \<Rightarrow> bool" where
  "dfs_inv h st B \<longleftrightarrow>
     set (snd st) \<subseteq> fst st \<and> distinct (snd st) \<and> post_order h (snd st) \<and>
     (\<forall>a \<in> fst st - set (snd st). \<forall>b \<in> B. b < a)"

definition dfs_post :: "'v heap \<Rightarrow> ref set \<times> ref list \<Rightarrow> ref set \<Rightarrow> ref set \<times> ref list \<Rightarrow> bool" where
  "dfs_post h st B st' \<longleftrightarrow>
     (\<exists>new. st' = (fst st \<union> set new, snd st @ new)) \<and> distinct (snd st') \<and>
     post_order h (snd st') \<and> set (snd st') = set (snd st) \<union> (\<Union>b\<in>B. reachable h b)"

lemma child_less: "acyclic_store h \<Longrightarrow> c \<in> set (prev_of h p) \<Longrightarrow> c < p"
  by (auto simp: acyclic_store_def prev_of_def split: if_splits)

lemma reachable_le:
  assumes "acyclic_store h" "n \<in> reachable h v"
  shows "n \<le> v"
proof -
  from assms(2) have "(v, n) \<in> (child_rel h)\<^sup>*" by (simp add: reachable_def)
  then show ?thesis
  proof (induction rule: rtrancl_induct)
    case base
    then show ?case by simp
  next
    case (step y z)
    then have "z < y" using child_less [OF assms(1)] by (simp add: child_rel_def)
    with step show ?case by simp
  qed
qed

lemma reachable_unfold:
  "reachable h v = insert v (\<Union>c\<in>set (prev_of h v). reachable h c)"
proof
  show "reachable h v \<subseteq> insert v (\<Union>c\<in>set (prev_of h v). reachable h c)"
  proof
    fix n assume "n \<in> reachable h v"
    then have "(v, n) \<in> (child_rel h)\<^sup>*" by (simp add: reachable_def)
    then show "n \<in> insert v (\<Union>c\<in>set (prev_of h v). reachable h c)"
      by (cases rule: converse_rtranclE) (auto simp: reachable_def child_rel_def)
  qed
next
  show "insert v (\<Union>c\<in>set (prev_of h v). reachable h c) \<subseteq> reachable h v"
    by (auto simp: reachable_def child_rel_def intro: converse_rtrancl_into_rtrancl)
qed

lemma reachable_self [simp]: "v \<in> reachable h v"
  by (simp add: reachable_def)

lemma post_order_Nil [simp]: "post_order h []"
  by (simp add: post_order_def)

lemma post_order_snoc:
  "post_order h (topo @ [v]) \<longleftrightarrow> post_order h topo \<and> set (prev_of h v) \<subseteq> set topo"
  by (auto simp: post_order_def less_Suc_eq nth_append)

lemma post_order_closed:
  assumes "post_order h topo" "x \<in> set topo" "c \<in> set (prev_of h x)"
  shows "c \<in> set topo"
proof -
  from assms(2) obtain i where "i < length topo" "topo ! i = x" by (auto simp: in_set_conv_nth)
  with assms(1,3) have "c \<in> set (take i topo)" by (auto simp: post_order_def)
  then show ?thesis by (rule in_set_takeD)
qed

lemma post_order_reachable:
  assumes "post_order h topo" "x \<in> set topo"
  shows "reachable h x \<subseteq> set topo"
proof
  fix n assume "n \<in> reachable h x"
  then have "(x, n) \<in> (child_rel h)\<^sup>*" by (simp add: reachable_def)
  then show "n \<in> set topo"
  proof (induction rule: rtrancl_induct)
    case base
    then show ?case by (rule assms(2))
  next
    case (step y z)
    then show ?case using post_order_closed [OF assms(1)] by (simp add: child_rel_def)
  qed
qed

lemma dfs_invD:
  assumes "dfs_inv h (visited, topo) B"
  shows "set topo \<subseteq> visited" "distinct topo" "post_order h topo"
    "\<And>a b. a \<in> visited \<Longrightarrow> a \<notin> set topo \<Longrightarrow> b \<in> B \<Longrightarrow> b < a"
  using assms by (auto simp: dfs_inv_def)

lemma dfs_invI:
  assumes "set topo \<subseteq> visited" "distinct topo" "post_order h topo"
    "\<And>a b. a \<in> visited \<Longrightarrow> a \<notin> set topo \<Longrightarrow> b \<in> B \<Longrightarrow> b < a"
  shows "dfs_inv h (visited, topo) B"
  using assms by (auto simp: dfs_inv_def)

lemma dfs_postD:
  assumes "dfs_post h (visited, topo) B st'"
  obtains new where "st' = (visited \<union> set new, topo @ new)" "distinct (topo @ new)"
    "post_order h (topo @ new)" "set (topo @ new) = set topo \<union> (\<Union>b\<in>B. reachable h b)"
  using assms by (auto simp: dfs_post_def)

lemma dfs_postI:
  assumes "st' = (visited \<union> set new, topo @ new)" "distinct (topo @ new)"
    "post_order h (topo @ new)" "set (topo @ new) = set topo \<union> (\<Union>b\<in>B. reachable h b)"
  shows "dfs_post h (visited, topo) B st'"
  using assms by (auto simp: dfs_post_def)

lemma dfs_correct:
  assumes wf: "acyclic_store h"
  shows "dfs_inv h st {v} \<Longrightarrow> dfs_post h st {v} (build_topo h v st)"
    and "dfs_inv h st (set cs) \<Longrightarrow> dfs_post h st (set cs) (build_topo_children h cs st)"
  using wf
proof (induction h v st and h cs st rule: build_topo_build_topo_children.induct)
  case (1 h v visited topo)
  note wf = \<open>acyclic_store h\<close>
  note inv = dfs_invD [OF \<open>dfs_inv h (visited, topo) {v}\<close>]
  show ?case
  proof (cases "v \<in> visited")
    case True
    have "v \<in> set topo"
    proof (rule ccontr)
      assume "v \<notin> set topo"
      from inv(4) [OF True this, of v] show False by simp
    qed
    from post_order_reachable [OF inv(3) this]
    have s: "set (topo @ []) = set topo \<union> (\<Union>b\<in>{v}. reachable h b)" by auto
    have r: "build_topo h v (visited, topo) = (visited \<union> set [], topo @ [])"
      using True by simp
    show ?thesis
      by (rule dfs_postI [OF r _ _ s]) (simp_all add: inv)
  next
    case False
    have inv': "dfs_inv h (insert v visited, topo) (set (prev_of h v))"
    proof (rule dfs_invI)
      show "set topo \<subseteq> insert v visited" using inv(1) by auto
      show "distinct topo" by (rule inv(2))
      show "post_order h topo" by (rule inv(3))
      fix a b assume a: "a \<in> insert v visited" "a \<notin> set topo" and b: "b \<in> set (prev_of h v)"
      from child_less [OF wf b] have bv: "b < v" .
      show "b < a"
      proof (cases "a = v")
        case True
        with bv show ?thesis by simp
      next
        case False
        with a have "a \<in> visited" by simp
        from inv(4) [OF this a(2), of v] bv show ?thesis by simp
      qed
    qed
    from "1.IH" [OF False inv' wf] obtain new where
      r: "build_topo_children h (prev_of h v) (insert v visited, topo)
            = (insert v visited \<union> set new, topo @ new)"
      and d: "distinct (topo @ new)" and p: "post_order h (topo @ new)"
      and s: "set (topo @ new) = set topo \<union> (\<Union>b\<in>set (prev_of h v). reachable h b)"
      by (rule dfs_postD)
    have notin: "v \<notin> set (topo @ new)"
    proof
      assume "v \<in> set (topo @ new)"
      with s have "v \<in> set topo \<or> (\<exists>c\<in>set (prev_of h v). v \<in> reachable h c)" by auto
      then show False
      proof
        assume "v \<in> set topo"
        with inv(1) False show False by auto
      next
        assume "\<exists>c\<in>set (prev_of h v). v \<in> reachable h c"
        then obtain c where c: "c \<in> set (prev_of h v)" "v \<in> reachable h c" by blast
        from reachable_le [OF wf c(2)] child_less [OF wf c(1)] show False by simp
      qed
    qed
    have res: "build_topo h v (visited, topo) = (visited \<union> set (new @ [v]), topo @ (new @ [v]))"
      using False r by simp
    have sub: "set (prev_of h v) \<subseteq> set (topo @ new)"
      using s by auto
    have s': "set (topo @ (new @ [v])) = set topo \<union> (\<Union>b\<in>{v}. reachable h b)"
    proof -
      have "reachable h v = insert v (\<Union>c\<in>set (prev_of h v). reachable h c)"
        by (rule reachable_unfold)
      with s show ?thesis by auto
    qed
    have d': "distinct (topo @ (new @ [v]))" using d notin by simp
    have p': "post_order h (topo @ (new @ [v]))"
      using post_order_snoc [of h "topo @ new" v] p sub by simp
    show ?thesis by (rule dfs_postI [OF res d' p' s'])
  qed
next
  case (2 h st)
  obtain visited topo where st: "st = (visited, topo)" by (cases st)
  note inv = dfs_invD [OF \<open>dfs_inv h st (set [])\<close> [unfolded st]]
  have r: "build_topo_children h [] (visited, topo) = (visited \<union> set [], topo @ [])" by simp
  show ?case unfolding st
    by (rule dfs_postI [OF r]) (simp_all add: inv)
next
  case (3 h child rest st)
  note wf = \<open>acyclic_store h\<close>
  obtain visited topo where st: "st = (visited, topo)" by (cases st)
  note inv = dfs_invD [OF \<open>dfs_inv h st (set (child # rest))\<close> [unfolded st]]
  have inv1: "dfs_inv h st {child}" unfolding st
    by (rule dfs_invI) (use inv in auto)
  from "3.IH"(1) [OF inv1 wf] obtain new1 where
    r1: "build_topo h child st = (visited \<union> set new1, topo @ new1)"
    and d1: "distinct (topo @ new1)" and p1: "post_order h (topo @ new1)"
    and s1: "set (topo @ new1) = set topo \<union> (\<Union>b\<in>{child}. reachable h b)"
    unfolding st by (rule dfs_postD)
  have inv2: "dfs_inv h (build_topo h child st) (set rest)" unfolding r1
  proof (rule dfs_invI)
    show "set (topo @ new1) \<subseteq> visited \<union> set new1" using inv(1) by auto
    show "distinct (topo @ new1)" by (rule d1)
    show "post_order h (topo @ new1)" by (rule p1)
    fix a b assume "a \<in> visited \<union> set new1" "a \<notin> set (topo @ new1)" "b \<in> set rest"
    then show "b < a" using inv(4) [of a b] by auto
  qed
  from "3.IH"(2) [OF inv2 wf] obtain new2 where
    r2: "build_topo_children h rest (build_topo h child st)
           = ((visited \<union> set new1) \<union> set new2, (topo @ new1) @ new2)"
    and d2: "distinct ((topo @ new1) @ new2)" and p2: "post_order h ((topo @ new1) @ new2)"
    and s2: "set ((topo @ new1) @ new2) = set (topo @ new1) \<union> (\<Union>b\<in>set rest. reachable h b)"
    unfolding r1 by (rule dfs_postD)
  have r: "build_topo_children h (child # rest) (visited, topo)
          = (visited \<union> set (new1 @ new2), topo @ (new1 @ new2))"
    using r2 by (simp add: Un_assoc st)
  have s: "set (topo @ (new1 @ new2)) = set topo \<union> (\<Union>b\<in>set (child # rest). reachable h b)"
    using s1 s2 by auto
  show ?case unfolding st
    by (rule dfs_postI [OF r _ _ s]) (use d2 p2 in simp_all)
qed

lemma topo_order_correct:
  assumes "acyclic_store h"
  shows "distinct (topo_order h self)" "post_order h (topo_order h self)"
    "set (topo_order h self) = reachable h self"
proof -
  have "dfs_inv h ({}, []) {self}" by (simp add: dfs_inv_def)
  from dfs_correct(1) [OF assms this]
  show "distinct (topo_order h self)" "post_order h (topo_order h self)"
    "set (topo_order h self) = reachable h self"
    by (auto simp: dfs_post_def topo_order_def)
qed

lemma topo_order_last: "\<exists>ys. topo_order h self = ys @ [self]"
  by (simp add: topo_order_def split: prod.splits)


lemma acyclic_store_enumerate:
  "acyclic_store h \<longleftrightarrow> (\<forall>(n, t) \<in> set (enumerate 0 h). \<forall>c\<in>set (prev t). c < n)"
proof
  assume "acyclic_store h"
  then show "\<forall>(n, t) \<in> set (enumerate 0 h). \<forall>c\<in>set (prev t). c < n"
    by (auto simp: acyclic_store_def in_set_enumerate_eq)
next
  assume r: "\<forall>(n, t) \<in> set (enumerate 0 h). \<forall>c\<in>set (prev t). c < n"
  show "acyclic_store h"
    unfolding acyclic_store_def
  proof (intro allI impI ballI)
    fix n c assume "n < length h" "c \<in> set (prev (h ! n))"
    moreover from this have "(n, h ! n) \<in> set (enumerate 0 h)"
      by (simp add: in_set_enumerate_eq)
    ultimately show "c < n" using r by fastforce
  qed
qed

section \<open>Shapes\<close>

lemma shape_lawsD:
  assumes "shape_laws np"
  shows "\<And>x y r m k n. py_matmul np x y = Inr r \<Longrightarrow> np_shape np x = Inr [m, k] \<Longrightarrow>
           np_shape np y = Inr [k, n] \<Longrightarrow> np_shape np r = Inr [m, n]"
    and "\<And>x t m n. np_T np x = Inr t \<Longrightarrow> np_shape np x = Inr [m, n] \<Longrightarrow> np_shape np t = Inr [n, m]"
    and "\<And>x y r s. py_iadd np x y = Inr r \<Longrightarrow> np_shape np x = Inr s \<Longrightarrow> np_shape np r = Inr s"
    and "\<And>x g s. np_zeros_like np x = Inr g \<Longrightarrow> np_shape np x = Inr s \<Longrightarrow> np_shape np g = Inr s"
  using assms unfolding shape_laws_def by blast+

lemma exact_shape_laws: "shape_laws exact"
  unfolding shape_laws_def
proof (intro conjI allI impI)
  fix x y r :: val and m k n :: nat
  assume "py_matmul exact x y = Inr r \<and> np_shape exact x = Inr [m, k] \<and>
        np_shape exact y = Inr [k, n]"
  then show "np_shape exact r = Inr [m, n]"
    by (cases x; cases y) (auto simp: exact_def split: if_splits)
next
  fix x t :: val and m n :: nat
  assume "np_T exact x = Inr t \<and> np_shape exact x = Inr [m, n]"
  then show "np_shape exact t = Inr [n, m]"
    by (cases x) (auto simp: exact_def split: if_splits)
next
  fix x y r :: val and s :: "nat list"
  assume "py_iadd exact x y = Inr r \<and> np_shape exact x = Inr s"
  then show "np_shape exact r = Inr s"
    by (cases x; cases y) (auto simp: exact_def split: if_splits)
next
  fix x g :: val and s :: "nat list"
  assume "np_zeros_like exact x = Inr g \<and> np_shape exact x = Inr s"
  then show "np_shape exact g = Inr s"
    by (cases x) (auto simp: exact_def)
qed

text \<open>A guarded statement keeps the shape of every grad, by the law of in-place addition.\<close>

lemma guarded_iadd_shape:
  assumes "shape_laws np"
    and "(if requires_grad (h ! x) then bindr m (iadd_grad np h x) else Inr h) = Inr h'"
    and "np_shape np (grad (h ! n)) = Inr s"
  shows "np_shape np (grad (h' ! n)) = Inr s"
proof (cases "requires_grad (h ! x)")
  case True
  with assms(2) obtain v g where g: "py_iadd np (grad (h ! x)) v = Inr g" and h': "h' = set_grad h x g"
    by (auto simp: bindr_eq_Inr iadd_grad_Inr)
  show ?thesis
  proof (cases "n = x \<and> x < length h")
    case True
    with shape_lawsD(3) [OF assms(1) g] assms(3) show ?thesis
      by (simp add: h' set_grad_nth)
  next
    case False
    with assms(3) show ?thesis by (auto simp: h' set_grad_nth)
  qed
next
  case False
  with assms show ?thesis by simp
qed

lemma Matmul_backward_steps:
  "call_backward np (MatmulBw a b z) h = Inr h' \<longleftrightarrow>
     (\<exists>h1. (if requires_grad (h ! a)
            then bindr (bindr (np_T np (data (h ! b))) (py_matmul np (grad (h ! z))))
                   (iadd_grad np h a)
            else Inr h) = Inr h1 \<and>
           (if requires_grad (h1 ! b)
            then bindr (bindr (np_T np (data (h1 ! a))) (\<lambda>aT. py_matmul np aT (grad (h1 ! z))))
                   (iadd_grad np h1 b)
            else Inr h1) = Inr h')"
  by (auto simp: bindr_eq_Inr split: if_splits)

section \<open>Closures as lists of guarded statements\<close>

text \<open>
  Each closure is a list of statements \<^verbatim>\<open>if t.requires_grad: t.grad += e\<close>. The addend
  \<open>e\<close> of every statement but the second one of \<open>Mul\<close> is computed from forward data
  and the grad of the result node alone.
\<close>

type_synonym 'v stmt = "ref \<times> ('v heap \<Rightarrow> error + 'v)"

definition exec_stmt :: "'v numpy \<Rightarrow> 'v stmt \<Rightarrow> 'v heap \<Rightarrow> error + 'v heap" where
  "exec_stmt np s h =
     (if requires_grad (h ! fst s) then bindr (snd s h) (iadd_grad np h (fst s)) else Inr h)"

fun exec_stmts :: "'v numpy \<Rightarrow> 'v stmt list \<Rightarrow> 'v heap \<Rightarrow> error + 'v heap" where
  "exec_stmts np [] h = Inr h"
| "exec_stmts np (s # ss) h = bindr (exec_stmt np s h) (exec_stmts np ss)"

fun stmts_of :: "'v numpy \<Rightarrow> 'v closure \<Rightarrow> 'v stmt list" where
  "stmts_of np NoOp = []"
| "stmts_of np (AddBw a b z) = [(a, \<lambda>h. Inr (grad (h ! z))), (b, \<lambda>h. Inr (grad (h ! z)))]"
| "stmts_of np (MulBw a b z) =
     [(a, \<lambda>h. py_mul np (data (h ! b)) (grad (h ! z))),
      (b, \<lambda>h. py_mul np (grad (h ! a)) (grad (h ! z)))]"
| "stmts_of np (NegBw a z) = [(a, \<lambda>h. py_mul np (py_int np (- 1)) (grad (h ! z)))]"
| "stmts_of np (MatmulBw a b z) =
     [(a, \<lambda>h. bindr (np_T np (data (h ! b))) (py_matmul np (grad (h ! z)))),
      (b, \<lambda>h. bindr (np_T np (data (h ! a))) (\<lambda>aT. py_matmul np aT (grad (h ! z))))]"
| "stmts_of np (PowBw a p z) =
     [(a, \<lambda>h. bindr (py_sub np p (py_int np 1)) (\<lambda>b1.
               bindr (np_power np (data (h ! a)) b1) (\<lambda>q.
               bindr (py_mul np p q) (\<lambda>bp. py_mul np bp (grad (h ! z))))))]"
| "stmts_of np (DivBw a b z) =
     [(a, \<lambda>h. bindr (py_truediv np (py_int np 1) (data (h ! b))) (py_mul np (grad (h ! z)))),
      (b, \<lambda>h. bindr (py_neg np (grad (h ! z))) (\<lambda>n.
               bindr (py_mul np n (data (h ! a))) (\<lambda>na.
               bindr (py_pow np (data (h ! b)) (py_int np 2)) (py_truediv np na))))]"
| "stmts_of np (ExpBw a z) = [(a, \<lambda>h. py_mul np (data (h ! z)) (grad (h ! z)))]"

lemma bindr_assoc: "bindr (bindr m f) g = bindr m (\<lambda>x. bindr (f x) g)"
  by (cases m) simp_all

lemma bindr_return [simp]: "bindr m Inr = m"
  by (cases m) simp_all

lemma exec_stmts_Nil_fun [simp]: "exec_stmts np [] = Inr"
  by (rule ext) simp

lemma exec_stmts_single [simp]: "exec_stmts np [s] = exec_stmt np s"
  by (rule ext) simp

lemma exec_stmt_fun:
  "exec_stmt np s =
     (\<lambda>h. if requires_grad (h ! fst s) then bindr (snd s h) (iadd_grad np h (fst s)) else Inr h)"
  by (rule ext) (simp add: exec_stmt_def)

lemma call_backward_stmts: "call_backward np c h = exec_stmts np (stmts_of np c) h"
  by (cases c) (simp_all add: exec_stmt_fun bindr_assoc split del: if_split cong: if_cong)

definition stable :: "ref \<Rightarrow> ('v heap \<Rightarrow> error + 'v) \<Rightarrow> bool" where
  "stable z e \<longleftrightarrow> (\<forall>h h'. same_graph h h' \<and> grad (h ! z) = grad (h' ! z) \<longrightarrow> e h = e h')"

lemma exec_stmt_writes:
  assumes "exec_stmt np s h = Inr h'"
  shows "writes_only {fst s} h h'"
  using assms guarded_iadd [of h "fst s" "snd s h" np h'] by (simp add: exec_stmt_def)

lemma exec_stmt_grad:
  assumes "exec_stmt np s h = Inr h'" "x < length h"
  shows "if fst s = x \<and> requires_grad (h ! x)
         then \<exists>d. snd s h = Inr d \<and> py_iadd np (grad (h ! x)) d = Inr (grad (h' ! x))
         else grad (h' ! x) = grad (h ! x)"
proof (cases "requires_grad (h ! fst s)")
  case True
  with assms(1) obtain d g where d: "snd s h = Inr d" "py_iadd np (grad (h ! fst s)) d = Inr g"
    "h' = set_grad h (fst s) g"
    by (auto simp: exec_stmt_def bindr_eq_Inr iadd_grad_Inr)
  with True assms(2) show ?thesis by (auto simp: set_grad_nth)
next
  case False
  with assms(1) have "h' = h" by (simp add: exec_stmt_def)
  with False show ?thesis by auto
qed

lemma exec_stmts_same_addends:
  assumes "exec_stmts np ss hA = Inr hA'" "exec_stmts np ss hB = Inr hB'"
    and "same_graph hA hB" "grad (hA ! z) = grad (hB ! z)"
    and "\<forall>s \<in> set ss. fst s \<noteq> z"
    and "\<forall>s \<in> set ss. fst s = x \<longrightarrow> stable z (snd s)"
    and "x < length hA"
  shows "\<exists>ds. iadd_all np (grad (hA ! x)) ds = Inr (grad (hA' ! x)) \<and>
              iadd_all np (grad (hB ! x)) ds = Inr (grad (hB' ! x))"
  using assms
proof (induction ss arbitrary: hA hB)
  case Nil
  then have "iadd_all np (grad (hA ! x)) [] = Inr (grad (hA' ! x)) \<and>
             iadd_all np (grad (hB ! x)) [] = Inr (grad (hB' ! x))" by simp
  then show ?case by blast
next
  case (Cons s ss)
  from Cons.prems(1) obtain hA1 where A: "exec_stmt np s hA = Inr hA1"
    "exec_stmts np ss hA1 = Inr hA'" by (auto simp: bindr_eq_Inr)
  from Cons.prems(2) obtain hB1 where B: "exec_stmt np s hB = Inr hB1"
    "exec_stmts np ss hB1 = Inr hB'" by (auto simp: bindr_eq_Inr)
  have sz: "fst s \<noteq> z" using Cons.prems(5) by simp
  have wA: "writes_only {fst s} hA hA1" by (rule exec_stmt_writes [OF A(1)])
  have wB: "writes_only {fst s} hB hB1" by (rule exec_stmt_writes [OF B(1)])
  have sg: "same_graph hA1 hB1"
    using wA wB Cons.prems(3) by (simp add: writes_only_def same_graph_def)
  have gz: "grad (hA1 ! z) = grad (hB1 ! z)"
    using wA wB sz Cons.prems(4) by (simp add: writes_only_def)
  have len: "x < length hA1" "x < length hB"
    using wA Cons.prems(3,7) by (simp_all add: writes_only_def same_graph_def)
  from Cons.IH [OF A(2) B(2) sg gz _ _ len(1)] Cons.prems(5,6)
  obtain ds where ds: "iadd_all np (grad (hA1 ! x)) ds = Inr (grad (hA' ! x))"
    "iadd_all np (grad (hB1 ! x)) ds = Inr (grad (hB' ! x))" by auto
  have rg: "requires_grad (hB ! x) = requires_grad (hA ! x)"
    using Cons.prems(3) by (simp add: same_graph_def)
  show ?case
  proof (cases "fst s = x \<and> requires_grad (hA ! x)")
    case True
    with Cons.prems(6) have "stable z (snd s)" by simp
    then have e: "snd s hA = snd s hB"
      using Cons.prems(3,4) by (simp add: stable_def)
    from exec_stmt_grad [OF A(1) Cons.prems(7)] True obtain d where
      dA: "snd s hA = Inr d" "py_iadd np (grad (hA ! x)) d = Inr (grad (hA1 ! x))" by auto
    from exec_stmt_grad [OF B(1) len(2)] True rg e dA(1) have
      dB: "py_iadd np (grad (hB ! x)) d = Inr (grad (hB1 ! x))" by auto
    from dA dB ds have "iadd_all np (grad (hA ! x)) (d # ds) = Inr (grad (hA' ! x)) \<and>
        iadd_all np (grad (hB ! x)) (d # ds) = Inr (grad (hB' ! x))" by simp
    then show ?thesis by blast
  next
    case False
    from exec_stmt_grad [OF A(1) Cons.prems(7)] False
    have "grad (hA1 ! x) = grad (hA ! x)" by auto
    moreover from exec_stmt_grad [OF B(1) len(2)] False rg
    have "grad (hB1 ! x) = grad (hB ! x)" by auto
    ultimately show ?thesis using ds by auto
  qed
qed

lemma stmts_of_targets: "s \<in> set (stmts_of np c) \<Longrightarrow> fst s \<in> operands c"
  by (cases c) auto

lemma stmts_of_stable:
  assumes "s \<in> set (stmts_of np c)" "result_of c \<subseteq> {z}" "fst s = x"
    and "\<forall>a z'. c \<noteq> MulBw a x z'"
  shows "stable z (snd s)"
  using assms by (cases c) (auto simp: stable_def same_graph_def)

lemma closure_same_addends:
  assumes "call_backward np c hA = Inr hA'" "call_backward np c hB = Inr hB'"
    and "same_graph hA hB" "grad (hA ! z) = grad (hB ! z)"
    and "result_of c \<subseteq> {z}" "z \<notin> operands c" "\<forall>a z'. c \<noteq> MulBw a x z'" "x < length hA"
  shows "\<exists>ds. iadd_all np (grad (hA ! x)) ds = Inr (grad (hA' ! x)) \<and>
              iadd_all np (grad (hB ! x)) ds = Inr (grad (hB' ! x))"
proof (rule exec_stmts_same_addends [where ss = "stmts_of np c" and z = z])
  show "exec_stmts np (stmts_of np c) hA = Inr hA'" using assms(1) by (simp add: call_backward_stmts)
  show "exec_stmts np (stmts_of np c) hB = Inr hB'" using assms(2) by (simp add: call_backward_stmts)
  show "same_graph hA hB" by (rule assms(3))
  show "grad (hA ! z) = grad (hB ! z)" by (rule assms(4))
  show "\<forall>s\<in>set (stmts_of np c). fst s \<noteq> z"
    using stmts_of_targets [of _ np c] assms(6) by auto
  show "\<forall>s\<in>set (stmts_of np c). fst s = x \<longrightarrow> stable z (snd s)"
    using stmts_of_stable [OF _ assms(5) _ assms(7)] by blast
  show "x < length hA" by (rule assms(8))
qed

section \<open>Well-formed stores and repeated calls\<close>

lemma build_topo_same_prev:
  assumes "\<And>v. prev_of h' v = prev_of h v"
  shows "build_topo h v st = build_topo h' v st"
    and "build_topo_children h cs st = build_topo_children h' cs st"
  using assms
proof (induction h v st and h cs st rule: build_topo_build_topo_children.induct)
  case (1 h v visited topo)
  show ?case
  proof (cases "v \<in> visited")
    case True
    then show ?thesis by simp
  next
    case False
    from "1.IH" [OF False "1.prems"] "1.prems" [of v] False show ?thesis by simp
  qed
next
  case (2 h st)
  then show ?case by simp
next
  case (3 h child rest st)
  from "3.IH"(1) [OF "3.prems"] "3.IH"(2) [OF "3.prems"] show ?case by simp
qed

lemma same_graph_topo_order:
  assumes "same_graph h h'"
  shows "topo_order h' self = topo_order h self"
proof -
  have "\<And>v. prev_of h' v = prev_of h v"
    using assms by (simp add: prev_of_def same_graph_def)
  from build_topo_same_prev(1) [OF this, of self "({}, [])"] show ?thesis
    unfolding topo_order_def by (simp only:)
qed

lemma writes_only_same_graph: "writes_only X h h' \<Longrightarrow> same_graph h h'"
  by (simp add: writes_only_def)

lemma wf_store_acyclic: "wf_store h \<Longrightarrow> acyclic_store h"
  by (simp add: wf_store_def acyclic_store_def)

lemma wf_store_operands_less:
  assumes "wf_store h" "n < length h" "x \<in> operands (backward_fn (h ! n))"
  shows "x < n"
  using assms unfolding wf_store_def by blast

lemma wf_store_result:
  assumes "wf_store h" "n < length h"
  shows "result_of (backward_fn (h ! n)) \<subseteq> {n}"
  using assms unfolding wf_store_def by blast

text \<open>No recorded closure has the root among its operands.\<close>

lemma root_not_an_operand:
  assumes wf: "wf_store h" and self: "self < length h" and n: "n \<in> set (topo_order h self)"
  shows "self \<notin> operands (backward_fn (h ! n))"
proof
  assume a: "self \<in> operands (backward_fn (h ! n))"
  from n topo_order_correct(3) [OF wf_store_acyclic [OF wf], of self]
  have "n \<in> reachable h self" by simp
  from reachable_le [OF wf_store_acyclic [OF wf] this] have le: "n \<le> self" .
  with self have "n < length h" by simp
  from wf_store_operands_less [OF wf this a] le show False by simp
qed

text \<open>One call of \<open>backward\<close>, taken apart: the seed, the closure of the root, the rest.\<close>

lemma backward_steps:
  assumes wf: "wf_store h" and b: "backward np h self = Inr h1"
  obtains ones ys ha where
    "np_ones_like np (data (h ! self)) = Inr ones"
    "topo_order h self = ys @ [self]" "self \<notin> set ys"
    "call_backward np (backward_fn (h ! self)) (set_grad h self ones) = Inr ha"
    "run_backwards np (rev ys) ha = Inr h1"
proof -
  from b obtain ones where o: "np_ones_like np (data (h ! self)) = Inr ones"
    and r: "run_backwards np (rev (topo_order h self)) (set_grad h self ones) = Inr h1"
    by (auto simp: backward_Inr)
  obtain ys where ys: "topo_order h self = ys @ [self]"
    using topo_order_last [of h self] by blast
  from topo_order_correct(1) [OF wf_store_acyclic [OF wf], of self] ys
  have ni: "self \<notin> set ys" by simp
  from r ys obtain ha where
    "call_backward np (backward_fn (h ! self)) (set_grad h self ones) = Inr ha"
    "run_backwards np (rev ys) ha = Inr h1"
    by (auto simp: bindr_eq_Inr)
  with o ys ni show ?thesis by (rule that)
qed

lemma wf_store_Nil [simp]: "wf_store []"
  by (simp add: wf_store_def)

lemma wf_store_snoc:
  assumes "wf_store h" "\<forall>c\<in>set (prev t). c < length h"
    "operands (backward_fn t) \<subseteq> set (prev t)" "result_of (backward_fn t) \<subseteq> {length h}"
  shows "wf_store (h @ [t])"
  using assms by (auto simp: wf_store_def nth_append less_Suc_eq)

text \<open>Every store that the constructors build from the empty store is well formed.\<close>

lemma constructors_keep_wf_store:
  assumes "wf_store h" "a < length h" "b < length h"
  shows "leaf np h d rg = Inr (h', z) \<Longrightarrow> wf_store h'"
    and "Add np h a b = Inr (h', z) \<Longrightarrow> wf_store h'"
    and "Mul np h a b = Inr (h', z) \<Longrightarrow> wf_store h'"
    and "Matmul np h a b = Inr (h', z) \<Longrightarrow> wf_store h'"
    and "Div np h a b = Inr (h', z) \<Longrightarrow> wf_store h'"
    and "Neg np h a = Inr (h', z) \<Longrightarrow> wf_store h'"
    and "Pow_op np h a p = Inr (h', z) \<Longrightarrow> wf_store h'"
    and "Exp np h a = Inr (h', z) \<Longrightarrow> wf_store h'"
proof -
  show "leaf np h d rg = Inr (h', z) \<Longrightarrow> wf_store h'"
    using assms(1) by (auto simp: leaf_def Tensor_Inr intro!: wf_store_snoc)
  show "Add np h a b = Inr (h', z) \<Longrightarrow> wf_store h'"
    using assms by (auto simp: Add_Inr intro!: wf_store_snoc split: if_splits)
  show "Mul np h a b = Inr (h', z) \<Longrightarrow> wf_store h'"
    using assms by (auto simp: Mul_Inr intro!: wf_store_snoc split: if_splits)
  show "Matmul np h a b = Inr (h', z) \<Longrightarrow> wf_store h'"
    using assms by (auto simp: Matmul_Inr intro!: wf_store_snoc split: if_splits)
  show "Div np h a b = Inr (h', z) \<Longrightarrow> wf_store h'"
    using assms by (auto simp: Div_Inr intro!: wf_store_snoc split: if_splits)
  show "Neg np h a = Inr (h', z) \<Longrightarrow> wf_store h'"
    using assms by (auto simp: Neg_Inr intro!: wf_store_snoc split: if_splits)
  show "Pow_op np h a p = Inr (h', z) \<Longrightarrow> wf_store h'"
    using assms by (auto simp: Pow_op_Inr intro!: wf_store_snoc split: if_splits)
  show "Exp np h a = Inr (h', z) \<Longrightarrow> wf_store h'"
    using assms by (auto simp: Exp_Inr intro!: wf_store_snoc split: if_splits)
qed

lemma wf_store_two_leaves: "wf_store two_leaves"
proof -
  have "wf_store ([] @ [two_leaves ! 0])"
    by (rule wf_store_snoc) (simp_all add: two_leaves_def)
  then have "wf_store (([] @ [two_leaves ! 0]) @ [two_leaves ! 1])"
    by (rule wf_store_snoc) (simp_all add: two_leaves_def)
  then show ?thesis by (simp add: two_leaves_def)
qed

lemma two_leaves_built:
  "bindr (leaf exact [] (NdArray [1, 1] [2]) True) (\<lambda>(h, a). leaf exact h (NdArray [1, 1] [3]) False)
     = Inr (two_leaves, 1)"
  by (simp add: leaf_def Tensor_def exact_def two_leaves_def)

lemma two_matrices_built:
  "bindr (leaf exact [] (NdArray [2, 3] [1, 2, 3, 4, 5, 6]) True) (\<lambda>(h, a).
     leaf exact h (NdArray [3, 2] [1, 0, 0, 1, 1, 1]) True) = Inr (two_matrices, 1)"
  by (simp add: leaf_def Tensor_def exact_def two_matrices_def)

section \<open>The calls of the closures, one store after the other\<close>

text \<open>
  The loop over the recorded nodes returns a store exactly when there is a sequence of
  stores, one more than there are nodes, in which each store is what the closure of the
  next node makes of the store before it.
\<close>

lemma run_backwards_trace:
  "run_backwards np ns h0 = Inr h' \<longleftrightarrow>
     (\<exists>hs. length hs = Suc (length ns) \<and> hs ! 0 = h0 \<and>
        (\<forall>i < length ns.
           call_backward np (backward_fn (hs ! i ! (ns ! i))) (hs ! i) = Inr (hs ! Suc i)) \<and>
        hs ! length ns = h')"
proof (induction ns arbitrary: h0)
  case Nil
  show ?case
  proof
    assume "run_backwards np [] h0 = Inr h'"
    then have "length [h0] = Suc (length ([] :: ref list)) \<and> [h0] ! 0 = h0 \<and>
        (\<forall>i < length ([] :: ref list).
           call_backward np (backward_fn ([h0] ! i ! ([] ! i))) ([h0] ! i) = Inr ([h0] ! Suc i)) \<and>
        [h0] ! length ([] :: ref list) = h'" by simp
    then show "\<exists>hs. length hs = Suc (length ([] :: ref list)) \<and> hs ! 0 = h0 \<and>
        (\<forall>i < length ([] :: ref list).
           call_backward np (backward_fn (hs ! i ! ([] ! i))) (hs ! i) = Inr (hs ! Suc i)) \<and>
        hs ! length ([] :: ref list) = h'" by (rule exI)
  next
    assume "\<exists>hs. length hs = Suc (length ([] :: ref list)) \<and> hs ! 0 = h0 \<and>
        (\<forall>i < length ([] :: ref list).
           call_backward np (backward_fn (hs ! i ! ([] ! i))) (hs ! i) = Inr (hs ! Suc i)) \<and>
        hs ! length ([] :: ref list) = h'"
    then show "run_backwards np [] h0 = Inr h'" by auto
  qed
next
  case (Cons n ns)
  show ?case
  proof
    assume "run_backwards np (n # ns) h0 = Inr h'"
    then obtain h1 where 1: "call_backward np (backward_fn (h0 ! n)) h0 = Inr h1"
      and 2: "run_backwards np ns h1 = Inr h'" by (auto simp: bindr_eq_Inr)
    from 2 Cons.IH [of h1] obtain hs where hs: "length hs = Suc (length ns)" "hs ! 0 = h1"
      "\<forall>i < length ns. call_backward np (backward_fn (hs ! i ! (ns ! i))) (hs ! i) = Inr (hs ! Suc i)"
      "hs ! length ns = h'" by blast
    have "\<forall>i < length (n # ns).
        call_backward np (backward_fn ((h0 # hs) ! i ! ((n # ns) ! i))) ((h0 # hs) ! i)
          = Inr ((h0 # hs) ! Suc i)"
    proof (intro allI impI)
      fix i assume "i < length (n # ns)"
      then show "call_backward np (backward_fn ((h0 # hs) ! i ! ((n # ns) ! i))) ((h0 # hs) ! i)
          = Inr ((h0 # hs) ! Suc i)"
        using 1 hs(2,3) by (cases i) simp_all
    qed
    with hs have "length (h0 # hs) = Suc (length (n # ns)) \<and> (h0 # hs) ! 0 = h0 \<and>
        (\<forall>i < length (n # ns).
           call_backward np (backward_fn ((h0 # hs) ! i ! ((n # ns) ! i))) ((h0 # hs) ! i)
             = Inr ((h0 # hs) ! Suc i)) \<and>
        (h0 # hs) ! length (n # ns) = h'" by simp
    then show "\<exists>hs. length hs = Suc (length (n # ns)) \<and> hs ! 0 = h0 \<and>
        (\<forall>i < length (n # ns).
           call_backward np (backward_fn (hs ! i ! ((n # ns) ! i))) (hs ! i) = Inr (hs ! Suc i)) \<and>
        hs ! length (n # ns) = h'" by (rule exI)
  next
    assume "\<exists>hs. length hs = Suc (length (n # ns)) \<and> hs ! 0 = h0 \<and>
        (\<forall>i < length (n # ns).
           call_backward np (backward_fn (hs ! i ! ((n # ns) ! i))) (hs ! i) = Inr (hs ! Suc i)) \<and>
        hs ! length (n # ns) = h'"
    then obtain hs where hs: "length hs = Suc (length (n # ns))" "hs ! 0 = h0"
      "\<forall>i < length (n # ns).
           call_backward np (backward_fn (hs ! i ! ((n # ns) ! i))) (hs ! i) = Inr (hs ! Suc i)"
      "hs ! length (n # ns) = h'" by blast
    from hs(1) obtain x tl where c: "hs = x # tl" by (cases hs) auto
    with hs(2) have x: "x = h0" by simp
    from hs(3) have first: "call_backward np (backward_fn (h0 ! n)) h0 = Inr (tl ! 0)"
      unfolding c x by (auto dest: spec [of _ 0])
    have rest: "\<forall>i < length ns.
        call_backward np (backward_fn (tl ! i ! (ns ! i))) (tl ! i) = Inr (tl ! Suc i)"
    proof (intro allI impI)
      fix i assume "i < length ns"
      then have "Suc i < length (n # ns)" by simp
      from hs(3) [rule_format, OF this]
      show "call_backward np (backward_fn (tl ! i ! (ns ! i))) (tl ! i) = Inr (tl ! Suc i)"
        by (simp add: c)
    qed
    have "run_backwards np ns (tl ! 0) = Inr h'"
      unfolding Cons.IH [of "tl ! 0"]
      using hs(1,4) rest c by (intro exI [of _ tl]) simp
    with first show "run_backwards np (n # ns) h0 = Inr h'" by simp
  qed
qed

section \<open>Operators on an operand that is not a Tensor\<close>

lemma coerce_raw:
  "coerce np h (Raw v) = bindr (np_zeros_like np v) (\<lambda>g0. Inr (h @ [raw_leaf v g0], length h))"
  by (simp add: coerce_def Tensor_def raw_leaf_def)

lemma operator_raw:
  "Tensor_add np h a (Raw v) =
     bindr (np_zeros_like np v) (\<lambda>g0. Add np (h @ [raw_leaf v g0]) a (length h))"
  "Tensor_mul np h a (Raw v) =
     bindr (np_zeros_like np v) (\<lambda>g0. Mul np (h @ [raw_leaf v g0]) a (length h))"
  "Tensor_truediv np h a (Raw v) =
     bindr (np_zeros_like np v) (\<lambda>g0. Div np (h @ [raw_leaf v g0]) a (length h))"
  "Tensor_sub np h a (Raw v) =
     bindr (np_zeros_like np v) (\<lambda>g0.
     bindr (Neg np (h @ [raw_leaf v g0]) (length h)) (\<lambda>(h2, nb). Add np h2 a nb))"
  by (simp_all add: Tensor_add_def Tensor_mul_def Tensor_truediv_def Tensor_sub_def
      Tensor_neg_def coerce_raw bindr_assoc coerce_def [of _ _ "Tens _"])

lemma raw_leaf_fields [simp]:
  "data (raw_leaf v g) = v" "requires_grad (raw_leaf v g) = False"
  by (simp_all add: raw_leaf_def)

lemma Neg_of_new_leaf:
  "Neg np (h @ [l]) (length h) = Inr (h2, nb) \<longleftrightarrow>
     (\<exists>n gn. py_mul np (data l) (py_int np (- 1)) = Inr n \<and> np_zeros_like np n = Inr gn \<and>
        nb = Suc (length h) \<and>
        h2 = h @ [l, \<lparr>data = n, children = [], grad = gn,
                      backward_fn = NegBw (length h) (Suc (length h)),
                      prev = [length h], op = ''neg'', label = '''',
                      requires_grad = requires_grad l\<rparr>])"
  by (auto simp: Neg_Inr)

lemma Add_of_new_node:
  assumes "a < length h"
  shows "Add np (h @ [l, m]) a (Suc (length h)) = Inr (h', z) \<longleftrightarrow>
     (\<exists>d g. py_add np (data (h ! a)) (data m) = Inr d \<and> np_zeros_like np d = Inr g \<and>
        z = Suc (Suc (length h)) \<and>
        h' = h @ [l, m, \<lparr>data = d, children = [], grad = g,
                         backward_fn = AddBw a (Suc (length h)) (Suc (Suc (length h))),
                         prev = [a, Suc (length h)], op = ''+'', label = '''',
                         requires_grad = (requires_grad (h ! a) \<or> requires_grad m)\<rparr>])"
  using assms by (auto simp: Add_Inr nth_append)

section \<open>The claims\<close>

text \<open>
  C1. For \<open>Mul(a, b)\<close> where \<open>b\<close> requires a gradient, the backward closure of the result
  should add \<open>a.data * result.grad\<close> into \<open>b.grad\<close>. The closure of the source reads
  \<open>a.grad\<close> instead, after its first statement has updated it. With \<open>a = [2]\<close> and
  \<open>b = [3]\<close>, both requiring a gradient, \<open>backward\<close> on \<open>z = Mul(a, b)\<close> seeds
  \<open>z.grad = [1]\<close> and invokes the closure of \<open>z\<close>: it leaves \<open>a.grad = [3]\<close> and
  \<open>b.grad = [3]\<close>, where adding \<open>a.data * z.grad\<close> to the zero \<open>b.grad\<close> gives \<open>[2]\<close>.
\<close>

theorem Mul_backward_reads_a_grad:
  "bindr (leaf exact [] (NdArray [1] [2]) True) (\<lambda>(h, a).
   bindr (leaf exact h (NdArray [1] [3]) True) (\<lambda>(h, b).
   bindr (Mul exact h a b) (\<lambda>(h, z).
   bindr (backward exact h z) (\<lambda>h'.
   Inr (grad (h' ! z), grad (h' ! a), grad (h' ! b),
        bindr (py_mul exact (data (h' ! a)) (grad (h' ! z))) (py_iadd exact (grad (h ! b))))))))
   = Inr (NdArray [1] [1], NdArray [1] [3], NdArray [1] [3], Inr (NdArray [1] [2]))"
  by (simp add: run_defs Mul_def)

text \<open>
  C2. On a store built by the constructors, \<open>backward(root)\<close> first records in \<open>topo\<close>
  every node reachable from the root through the children relation, each exactly once
  and each after all its children. It returns a store exactly when there is a sequence
  of stores that begins with the given store in which the \<open>grad\<close> of the root has been
  set to \<open>np.ones_like(root.data)\<close>, continues, for each node of \<open>topo\<close> taken in
  reverse order, with what the backward closure of that node makes of the store before,
  and ends with the store returned.
\<close>

theorem backward_replays_post_order_in_reverse:
  assumes "acyclic_store h"
  shows "distinct (topo_order h self) \<and>
         set (topo_order h self) = reachable h self \<and>
         post_order h (topo_order h self) \<and>
         (backward np h self = Inr h' \<longleftrightarrow>
            (\<exists>ones hs. np_ones_like np (data (h ! self)) = Inr ones \<and>
               length hs = Suc (length (topo_order h self)) \<and>
               hs ! 0 = h[self := (h ! self)\<lparr>grad := ones\<rparr>] \<and>
               (\<forall>i < length (topo_order h self).
                  call_backward np (backward_fn (hs ! i ! (rev (topo_order h self) ! i))) (hs ! i)
                    = Inr (hs ! Suc i)) \<and>
               hs ! length (topo_order h self) = h'))"
proof -
  have "backward np h self = Inr h' \<longleftrightarrow>
     (\<exists>ones. np_ones_like np (data (h ! self)) = Inr ones \<and>
        run_backwards np (rev (topo_order h self)) (h[self := (h ! self)\<lparr>grad := ones\<rparr>]) = Inr h')"
    by (simp add: backward_Inr set_grad_def)
  also have "\<dots> \<longleftrightarrow> (\<exists>ones hs. np_ones_like np (data (h ! self)) = Inr ones \<and>
               length hs = Suc (length (topo_order h self)) \<and>
               hs ! 0 = h[self := (h ! self)\<lparr>grad := ones\<rparr>] \<and>
               (\<forall>i < length (topo_order h self).
                  call_backward np (backward_fn (hs ! i ! (rev (topo_order h self) ! i))) (hs ! i)
                    = Inr (hs ! Suc i)) \<and>
               hs ! length (topo_order h self) = h')"
    unfolding run_backwards_trace by simp
  finally show ?thesis
    using topo_order_correct [OF assms, of self] by simp
qed


theorem backward_replays_post_order_in_reverse_witness:
  "\<exists>h z hs h'. bindr (Neg exact two_leaves 1) (\<lambda>(h, p).
           bindr (Neg exact h 0) (\<lambda>(h, q). Add exact h p q)) = Inr (h, z) \<and>
      map prev h = [[], [], [1], [0], [2, 3]] \<and>
      acyclic_store h \<and> topo_order h z = [1, 2, 0, 3, 4] \<and>
      reachable h z = {0, 1, 2, 3, 4} \<and> post_order h [1, 2, 0, 3, 4] \<and>
      backward exact h z = Inr h' \<and> length hs = 6 \<and>
      hs ! 0 = h[z := (h ! z)\<lparr>grad := NdArray [1, 1] [1]\<rparr>] \<and> hs ! 5 = h' \<and>
      call_backward exact (backward_fn (hs ! 0 ! 4)) (hs ! 0) = Inr (hs ! 1) \<and>
      call_backward exact (backward_fn (hs ! 1 ! 3)) (hs ! 1) = Inr (hs ! 2) \<and>
      call_backward exact (backward_fn (hs ! 2 ! 0)) (hs ! 2) = Inr (hs ! 3) \<and>
      call_backward exact (backward_fn (hs ! 3 ! 2)) (hs ! 3) = Inr (hs ! 4) \<and>
      call_backward exact (backward_fn (hs ! 4 ! 1)) (hs ! 4) = Inr (hs ! 5) \<and>
      map (map grad) hs =
        [[NdArray [1, 1] [0], NdArray [1, 1] [0], NdArray [1, 1] [0], NdArray [1, 1] [0], NdArray [1, 1] [1]],
         [NdArray [1, 1] [0], NdArray [1, 1] [0], NdArray [1, 1] [0], NdArray [1, 1] [1], NdArray [1, 1] [1]],
         [NdArray [1, 1] [- 1], NdArray [1, 1] [0], NdArray [1, 1] [0], NdArray [1, 1] [1], NdArray [1, 1] [1]],
         [NdArray [1, 1] [- 1], NdArray [1, 1] [0], NdArray [1, 1] [0], NdArray [1, 1] [1], NdArray [1, 1] [1]],
         [NdArray [1, 1] [- 1], NdArray [1, 1] [0], NdArray [1, 1] [0], NdArray [1, 1] [1], NdArray [1, 1] [1]],
         [NdArray [1, 1] [- 1], NdArray [1, 1] [0], NdArray [1, 1] [0], NdArray [1, 1] [1], NdArray [1, 1] [1]]]"
proof -
  define built where "built = bindr (Neg exact two_leaves 1) (\<lambda>(h, p).
           bindr (Neg exact h 0) (\<lambda>(h, q). Add exact h p q))"
  have "\<exists>h z h0 h1 h2 h3 h4 h5. built = Inr (h, z) \<and> z = 4 \<and>
      map prev h = [[], [], [1], [0], [2, 3]] \<and>
      acyclic_store h \<and> topo_order h z = [1, 2, 0, 3, 4] \<and>
      np_ones_like exact (data (h ! z)) = Inr (NdArray [1, 1] [1]) \<and>
      h0 = h[z := (h ! z)\<lparr>grad := NdArray [1, 1] [1]\<rparr>] \<and>
      call_backward exact (backward_fn (h0 ! 4)) h0 = Inr h1 \<and>
      call_backward exact (backward_fn (h1 ! 3)) h1 = Inr h2 \<and>
      call_backward exact (backward_fn (h2 ! 0)) h2 = Inr h3 \<and>
      call_backward exact (backward_fn (h3 ! 2)) h3 = Inr h4 \<and>
      call_backward exact (backward_fn (h4 ! 1)) h4 = Inr h5 \<and>
      map grad h0 = [NdArray [1, 1] [0], NdArray [1, 1] [0], NdArray [1, 1] [0], NdArray [1, 1] [0], NdArray [1, 1] [1]] \<and>
      map grad h1 = [NdArray [1, 1] [0], NdArray [1, 1] [0], NdArray [1, 1] [0], NdArray [1, 1] [1], NdArray [1, 1] [1]] \<and>
      map grad h2 = [NdArray [1, 1] [- 1], NdArray [1, 1] [0], NdArray [1, 1] [0], NdArray [1, 1] [1], NdArray [1, 1] [1]] \<and>
      map grad h3 = [NdArray [1, 1] [- 1], NdArray [1, 1] [0], NdArray [1, 1] [0], NdArray [1, 1] [1], NdArray [1, 1] [1]] \<and>
      map grad h4 = [NdArray [1, 1] [- 1], NdArray [1, 1] [0], NdArray [1, 1] [0], NdArray [1, 1] [1], NdArray [1, 1] [1]] \<and>
      map grad h5 = [NdArray [1, 1] [- 1], NdArray [1, 1] [0], NdArray [1, 1] [0], NdArray [1, 1] [1], NdArray [1, 1] [1]] \<and>
      True"
    unfolding built_def
    by (simp add: Neg_def Add_def run_defs two_leaves_def acyclic_store_enumerate)
  then obtain h z h0 h1 h2 h3 h4 h5 where e: "built = Inr (h, z) \<and> z = 4 \<and>
      map prev h = [[], [], [1], [0], [2, 3]] \<and>
      acyclic_store h \<and> topo_order h z = [1, 2, 0, 3, 4] \<and>
      np_ones_like exact (data (h ! z)) = Inr (NdArray [1, 1] [1]) \<and>
      h0 = h[z := (h ! z)\<lparr>grad := NdArray [1, 1] [1]\<rparr>] \<and>
      call_backward exact (backward_fn (h0 ! 4)) h0 = Inr h1 \<and>
      call_backward exact (backward_fn (h1 ! 3)) h1 = Inr h2 \<and>
      call_backward exact (backward_fn (h2 ! 0)) h2 = Inr h3 \<and>
      call_backward exact (backward_fn (h3 ! 2)) h3 = Inr h4 \<and>
      call_backward exact (backward_fn (h4 ! 1)) h4 = Inr h5 \<and>
      map grad h0 = [NdArray [1, 1] [0], NdArray [1, 1] [0], NdArray [1, 1] [0], NdArray [1, 1] [0], NdArray [1, 1] [1]] \<and>
      map grad h1 = [NdArray [1, 1] [0], NdArray [1, 1] [0], NdArray [1, 1] [0], NdArray [1, 1] [1], NdArray [1, 1] [1]] \<and>
      map grad h2 = [NdArray [1, 1] [- 1], NdArray [1, 1] [0], NdArray [1, 1] [0], NdArray [1, 1] [1], NdArray [1, 1] [1]] \<and>
      map grad h3 = [NdArray [1, 1] [- 1], NdArray [1, 1] [0], NdArray [1, 1] [0], NdArray [1, 1] [1], NdArray [1, 1] [1]] \<and>
      map grad h4 = [NdArray [1, 1] [- 1], NdArray [1, 1] [0], NdArray [1, 1] [0], NdArray [1, 1] [1], NdArray [1, 1] [1]] \<and>
      map grad h5 = [NdArray [1, 1] [- 1], NdArray [1, 1] [0], NdArray [1, 1] [0], NdArray [1, 1] [1], NdArray [1, 1] [1]] \<and>
      True"
    by (elim exE) (rule that)
  then have b: "built = Inr (h, z)" and z: "z = 4"
    and p: "map prev h = [[], [], [1], [0], [2, 3]]"
    and a: "acyclic_store h" and t: "topo_order h z = [1, 2, 0, 3, 4]"
    and o: "np_ones_like exact (data (h ! z)) = Inr (NdArray [1, 1] [1])"
    and h0: "h0 = h[z := (h ! z)\<lparr>grad := NdArray [1, 1] [1]\<rparr>]"
    and c: "call_backward exact (backward_fn (h0 ! 4)) h0 = Inr h1"
      "call_backward exact (backward_fn (h1 ! 3)) h1 = Inr h2"
      "call_backward exact (backward_fn (h2 ! 0)) h2 = Inr h3"
      "call_backward exact (backward_fn (h3 ! 2)) h3 = Inr h4"
      "call_backward exact (backward_fn (h4 ! 1)) h4 = Inr h5"
    and gs: "map grad h0 = [NdArray [1, 1] [0], NdArray [1, 1] [0], NdArray [1, 1] [0], NdArray [1, 1] [0], NdArray [1, 1] [1]]"
      "map grad h1 = [NdArray [1, 1] [0], NdArray [1, 1] [0], NdArray [1, 1] [0], NdArray [1, 1] [1], NdArray [1, 1] [1]]"
      "map grad h2 = [NdArray [1, 1] [- 1], NdArray [1, 1] [0], NdArray [1, 1] [0], NdArray [1, 1] [1], NdArray [1, 1] [1]]"
      "map grad h3 = [NdArray [1, 1] [- 1], NdArray [1, 1] [0], NdArray [1, 1] [0], NdArray [1, 1] [1], NdArray [1, 1] [1]]"
      "map grad h4 = [NdArray [1, 1] [- 1], NdArray [1, 1] [0], NdArray [1, 1] [0], NdArray [1, 1] [1], NdArray [1, 1] [1]]"
      "map grad h5 = [NdArray [1, 1] [- 1], NdArray [1, 1] [0], NdArray [1, 1] [0], NdArray [1, 1] [1], NdArray [1, 1] [1]]"
    by blast+
  have g: "map (map grad) [h0, h1, h2, h3, h4, h5] =
        [[NdArray [1, 1] [0], NdArray [1, 1] [0], NdArray [1, 1] [0], NdArray [1, 1] [0], NdArray [1, 1] [1]],
         [NdArray [1, 1] [0], NdArray [1, 1] [0], NdArray [1, 1] [0], NdArray [1, 1] [1], NdArray [1, 1] [1]],
         [NdArray [1, 1] [- 1], NdArray [1, 1] [0], NdArray [1, 1] [0], NdArray [1, 1] [1], NdArray [1, 1] [1]],
         [NdArray [1, 1] [- 1], NdArray [1, 1] [0], NdArray [1, 1] [0], NdArray [1, 1] [1], NdArray [1, 1] [1]],
         [NdArray [1, 1] [- 1], NdArray [1, 1] [0], NdArray [1, 1] [0], NdArray [1, 1] [1], NdArray [1, 1] [1]],
         [NdArray [1, 1] [- 1], NdArray [1, 1] [0], NdArray [1, 1] [0], NdArray [1, 1] [1], NdArray [1, 1] [1]]]"
    by (simp add: gs)
  define hs where "hs = [h0, h1, h2, h3, h4, h5]"
  note T = backward_replays_post_order_in_reverse [OF a, of z exact h5, unfolded t]
  have tr: "\<forall>i < length [1, 2, 0, 3, 4 :: nat].
      call_backward exact (backward_fn (hs ! i ! (rev [1, 2, 0, 3, 4] ! i))) (hs ! i)
        = Inr (hs ! Suc i)"
    using c by (simp add: hs_def All_less_Suc eval_nat_numeral)
  have "\<exists>ones hs. np_ones_like exact (data (h ! z)) = Inr ones \<and>
      length hs = Suc (length [1, 2, 0, 3, 4 :: nat]) \<and>
      hs ! 0 = h[z := (h ! z)\<lparr>grad := ones\<rparr>] \<and>
      (\<forall>i < length [1, 2, 0, 3, 4 :: nat].
         call_backward exact (backward_fn (hs ! i ! (rev [1, 2, 0, 3, 4] ! i))) (hs ! i)
           = Inr (hs ! Suc i)) \<and>
      hs ! length [1, 2, 0, 3, 4 :: nat] = h5"
    apply (rule exI [of _ "NdArray [1, 1] [1]"], rule exI [of _ hs])
    apply (intro conjI)
        apply (rule o)
       apply (simp add: hs_def)
      apply (simp add: hs_def h0)
     apply (rule tr)
    apply (simp add: hs_def)
    done
  with T have bw: "backward exact h z = Inr h5" by blast
  have r: "reachable h z = {0, 1, 2, 3, 4}"
    using T by (simp add: insert_commute)
  have po: "post_order h [1, 2, 0, 3, 4]"
    using T by (elim conjE)
  have hsf: "length hs = 6" "hs ! 0 = h[z := (h ! z)\<lparr>grad := NdArray [1, 1] [1]\<rparr>]" "hs ! 5 = h5"
    "call_backward exact (backward_fn (hs ! 0 ! 4)) (hs ! 0) = Inr (hs ! 1)"
    "call_backward exact (backward_fn (hs ! 1 ! 3)) (hs ! 1) = Inr (hs ! 2)"
    "call_backward exact (backward_fn (hs ! 2 ! 0)) (hs ! 2) = Inr (hs ! 3)"
    "call_backward exact (backward_fn (hs ! 3 ! 2)) (hs ! 3) = Inr (hs ! 4)"
    "call_backward exact (backward_fn (hs ! 4 ! 1)) (hs ! 4) = Inr (hs ! 5)"
    using c by (simp_all add: hs_def h0)
  show ?thesis
    apply (rule exI [of _ h], rule exI [of _ z], rule exI [of _ hs], rule exI [of _ h5])
    apply (intro conjI)
    apply (rule b [unfolded built_def])
    apply (rule p)
    apply (rule a)
    apply (rule t)
    apply (rule r)
    apply (rule po)
    apply (rule bw)
    apply (rule hsf(1))
    apply (rule hsf(2))
    apply (rule hsf(3))
    apply (rule hsf(4))
    apply (rule hsf(5))
    apply (rule hsf(6))
    apply (rule hsf(7))
    apply (rule hsf(8))
    apply (rule g [folded hs_def])
    done
qed

text \<open>
  C3. \<open>Matmul(a, b)\<close> holds \<open>a.data @ b.data\<close> as its data. Its backward closure adds
  \<open>result.grad @ b.data.T\<close> into \<open>a.grad\<close> when \<open>a\<close> requires a gradient, and
  \<open>a.data.T @ result.grad\<close> into \<open>b.grad\<close> when \<open>b\<close> does. With \<open>a\<close> of shape
  \<open>(m, k)\<close> and \<open>b\<close> of shape \<open>(k, n)\<close>, the result and its grad have shape \<open>(m, n)\<close>,
  the two addends have the shapes \<open>(m, k)\<close> and \<open>(k, n)\<close>, and \<open>a.grad\<close> and \<open>b.grad\<close>
  keep the shapes \<open>(m, k)\<close> and \<open>(k, n)\<close>.
\<close>

theorem Matmul_forward_and_backward:
  "(Matmul np h a b = Inr (h', z) \<longrightarrow>
      py_matmul np (data (h ! a)) (data (h ! b)) = Inr (data (h' ! z)) \<and>
      backward_fn (h' ! z) = MatmulBw a b z) \<and>
   (call_backward np (MatmulBw a b z) h1 = Inr h2 \<and> a < length h1 \<and> b < length h1 \<and>
      a \<noteq> b \<and> z \<noteq> a \<and> z \<noteq> b \<longrightarrow>
      (if requires_grad (h1 ! a)
       then \<exists>bT ga. np_T np (data (h1 ! b)) = Inr bT \<and> py_matmul np (grad (h1 ! z)) bT = Inr ga \<and>
              py_iadd np (grad (h1 ! a)) ga = Inr (grad (h2 ! a))
       else grad (h2 ! a) = grad (h1 ! a)) \<and>
      (if requires_grad (h1 ! b)
       then \<exists>aT gb. np_T np (data (h1 ! a)) = Inr aT \<and> py_matmul np aT (grad (h1 ! z)) = Inr gb \<and>
              py_iadd np (grad (h1 ! b)) gb = Inr (grad (h2 ! b))
       else grad (h2 ! b) = grad (h1 ! b))) \<and>
   (shape_laws np \<and> Matmul np h a b = Inr (h', z) \<and>
      np_shape np (data (h ! a)) = Inr [m, k] \<and> np_shape np (data (h ! b)) = Inr [k, n] \<longrightarrow>
      np_shape np (data (h' ! z)) = Inr [m, n] \<and> np_shape np (grad (h' ! z)) = Inr [m, n]) \<and>
   (shape_laws np \<and> np_shape np (data (h1 ! a)) = Inr [m, k] \<and>
      np_shape np (data (h1 ! b)) = Inr [k, n] \<and> np_shape np (grad (h1 ! z)) = Inr [m, n] \<and>
      np_T np (data (h1 ! b)) = Inr bT \<and> py_matmul np (grad (h1 ! z)) bT = Inr ga \<and>
      np_T np (data (h1 ! a)) = Inr aT \<and> py_matmul np aT (grad (h1 ! z)) = Inr gb \<longrightarrow>
      np_shape np ga = Inr [m, k] \<and> np_shape np gb = Inr [k, n]) \<and>
   (shape_laws np \<and> call_backward np (MatmulBw a b z) h1 = Inr h2 \<and>
      np_shape np (grad (h1 ! a)) = Inr [m, k] \<and> np_shape np (grad (h1 ! b)) = Inr [k, n] \<longrightarrow>
      np_shape np (grad (h2 ! a)) = Inr [m, k] \<and> np_shape np (grad (h2 ! b)) = Inr [k, n])"
proof (intro conjI impI)
  assume "Matmul np h a b = Inr (h', z)"
  then show "py_matmul np (data (h ! a)) (data (h ! b)) = Inr (data (h' ! z))"
    and "backward_fn (h' ! z) = MatmulBw a b z"
    by (auto simp: Matmul_Inr)
next
  assume A: "call_backward np (MatmulBw a b z) h1 = Inr h2 \<and> a < length h1 \<and> b < length h1 \<and>
      a \<noteq> b \<and> z \<noteq> a \<and> z \<noteq> b"
  then obtain hm where
    1: "(if requires_grad (h1 ! a)
            then bindr (bindr (np_T np (data (h1 ! b))) (py_matmul np (grad (h1 ! z))))
                   (iadd_grad np h1 a)
            else Inr h1) = Inr hm" and
    2: "(if requires_grad (hm ! b)
            then bindr (bindr (np_T np (data (hm ! a))) (\<lambda>aT. py_matmul np aT (grad (hm ! z))))
                   (iadd_grad np hm b)
            else Inr hm) = Inr h2"
    unfolding Matmul_backward_steps by blast
  from A have ne: "a < length h1" "b < length h1" "a \<noteq> b" "z \<noteq> a" "z \<noteq> b" by simp_all
  have w1: "writes_only {a} h1 hm" by (rule guarded_iadd [OF 1])
  have w2: "writes_only {b} hm h2" by (rule guarded_iadd [OF 2])
  have keep1: "grad (hm ! b) = grad (h1 ! b)" "grad (hm ! z) = grad (h1 ! z)"
    "data (hm ! a) = data (h1 ! a)" "requires_grad (hm ! b) = requires_grad (h1 ! b)"
    "length hm = length h1"
    using w1 ne by (simp_all add: writes_only_def same_graph_def)
  have keep2: "grad (h2 ! a) = grad (hm ! a)"
    using w2 ne by (simp add: writes_only_def)
  show "if requires_grad (h1 ! a)
       then \<exists>bT ga. np_T np (data (h1 ! b)) = Inr bT \<and> py_matmul np (grad (h1 ! z)) bT = Inr ga \<and>
              py_iadd np (grad (h1 ! a)) ga = Inr (grad (h2 ! a))
       else grad (h2 ! a) = grad (h1 ! a)"
    using 1 ne(1) unfolding keep2
    by (auto simp: bindr_eq_Inr iadd_grad_Inr grad_set_grad split: if_splits)
  show "if requires_grad (h1 ! b)
       then \<exists>aT gb. np_T np (data (h1 ! a)) = Inr aT \<and> py_matmul np aT (grad (h1 ! z)) = Inr gb \<and>
              py_iadd np (grad (h1 ! b)) gb = Inr (grad (h2 ! b))
       else grad (h2 ! b) = grad (h1 ! b)"
  proof (cases "requires_grad (h1 ! b)")
    case True
    with 2 keep1 obtain aT gb g where "np_T np (data (h1 ! a)) = Inr aT"
      "py_matmul np aT (grad (h1 ! z)) = Inr gb" "py_iadd np (grad (h1 ! b)) gb = Inr g"
      "h2 = set_grad hm b g"
      by (auto simp: bindr_eq_Inr iadd_grad_Inr)
    with True ne(2) keep1(5) show ?thesis by (auto simp: grad_set_grad)
  next
    case False
    with 2 keep1 have "h2 = hm" by simp
    with False keep1 show ?thesis by simp
  qed
next
  assume A: "shape_laws np \<and> Matmul np h a b = Inr (h', z) \<and>
      np_shape np (data (h ! a)) = Inr [m, k] \<and> np_shape np (data (h ! b)) = Inr [k, n]"
  then obtain d g where d: "py_matmul np (data (h ! a)) (data (h ! b)) = Inr d"
    and g: "np_zeros_like np d = Inr g" and z: "data (h' ! z) = d" "grad (h' ! z) = g"
    by (auto simp: Matmul_Inr)
  from A shape_lawsD(1) [OF _ d] have sd: "np_shape np d = Inr [m, n]" by blast
  from A shape_lawsD(4) [OF _ g sd] have "np_shape np g = Inr [m, n]" by blast
  with sd z show "np_shape np (data (h' ! z)) = Inr [m, n]"
    and "np_shape np (grad (h' ! z)) = Inr [m, n]" by simp_all
next
  assume A: "shape_laws np \<and> np_shape np (data (h1 ! a)) = Inr [m, k] \<and>
      np_shape np (data (h1 ! b)) = Inr [k, n] \<and> np_shape np (grad (h1 ! z)) = Inr [m, n] \<and>
      np_T np (data (h1 ! b)) = Inr bT \<and> py_matmul np (grad (h1 ! z)) bT = Inr ga \<and>
      np_T np (data (h1 ! a)) = Inr aT \<and> py_matmul np aT (grad (h1 ! z)) = Inr gb"
  then have L: "shape_laws np" by simp
  from A shape_lawsD(2) [OF L] have "np_shape np bT = Inr [n, k]" "np_shape np aT = Inr [k, m]"
    by blast+
  with A shape_lawsD(1) [OF L] show "np_shape np ga = Inr [m, k]" and "np_shape np gb = Inr [k, n]"
    by blast+
next
  assume A: "shape_laws np \<and> call_backward np (MatmulBw a b z) h1 = Inr h2 \<and>
      np_shape np (grad (h1 ! a)) = Inr [m, k] \<and> np_shape np (grad (h1 ! b)) = Inr [k, n]"
  then have L: "shape_laws np" by simp
  from A obtain hm where
    1: "(if requires_grad (h1 ! a)
            then bindr (bindr (np_T np (data (h1 ! b))) (py_matmul np (grad (h1 ! z))))
                   (iadd_grad np h1 a)
            else Inr h1) = Inr hm" and
    2: "(if requires_grad (hm ! b)
            then bindr (bindr (np_T np (data (hm ! a))) (\<lambda>aT. py_matmul np aT (grad (hm ! z))))
                   (iadd_grad np hm b)
            else Inr hm) = Inr h2"
    unfolding Matmul_backward_steps by blast
  from A guarded_iadd_shape [OF L 1] guarded_iadd_shape [OF L 2]
  show "np_shape np (grad (h2 ! a)) = Inr [m, k]" and "np_shape np (grad (h2 ! b)) = Inr [k, n]"
    by blast+
qed


theorem Matmul_forward_and_backward_witness:
  "\<exists>h' h2. Matmul exact two_matrices 0 1 = Inr (h', 2) \<and>
      data (h' ! 2) = NdArray [2, 2] [4, 5, 10, 11] \<and>
      call_backward exact (MatmulBw 0 1 2) (set_grad h' 2 (NdArray [2, 2] [1, 1, 1, 1])) = Inr h2 \<and>
      grad (h2 ! 0) = NdArray [2, 3] [1, 1, 2, 1, 1, 2] \<and>
      grad (h2 ! 1) = NdArray [3, 2] [5, 5, 7, 7, 9, 9] \<and>
      np_shape exact (grad (h2 ! 0)) = Inr [2, 3] \<and> np_shape exact (grad (h2 ! 1)) = Inr [3, 2]"
proof -
  define ones where "ones = NdArray [2, 2] [1, 1, 1, 1]"
  have "\<exists>h' h2. Matmul exact two_matrices 0 1 = Inr (h', 2) \<and> length h' = 3 \<and>
      map data h' = map data two_matrices @ [NdArray [2, 2] [4, 5, 10, 11]] \<and>
      map grad h' = map grad two_matrices @ [NdArray [2, 2] [0, 0, 0, 0]] \<and>
      map requires_grad h' = [True, True, True] \<and>
      call_backward exact (MatmulBw 0 1 2) (set_grad h' 2 ones) = Inr h2 \<and>
      grad (h2 ! 0) = NdArray [2, 3] [1, 1, 2, 1, 1, 2] \<and>
      grad (h2 ! 1) = NdArray [3, 2] [5, 5, 7, 7, 9, 9]"
    by (simp add: Matmul_def run_defs two_matrices_def upt_conv_Cons ones_def)
  then obtain h' h2 where hh: "Matmul exact two_matrices 0 1 = Inr (h', 2) \<and> length h' = 3 \<and>
      map data h' = map data two_matrices @ [NdArray [2, 2] [4, 5, 10, 11]] \<and>
      map grad h' = map grad two_matrices @ [NdArray [2, 2] [0, 0, 0, 0]] \<and>
      map requires_grad h' = [True, True, True] \<and>
      call_backward exact (MatmulBw 0 1 2) (set_grad h' 2 ones) = Inr h2 \<and>
      grad (h2 ! 0) = NdArray [2, 3] [1, 1, 2, 1, 1, 2] \<and>
      grad (h2 ! 1) = NdArray [3, 2] [5, 5, 7, 7, 9, 9]"
    by (elim exE) (rule that)
  then have M: "Matmul exact two_matrices 0 1 = Inr (h', 2)" and len: "length h' = 3"
    and md: "map data h' = map data two_matrices @ [NdArray [2, 2] [4, 5, 10, 11]]"
    and mg: "map grad h' = map grad two_matrices @ [NdArray [2, 2] [0, 0, 0, 0]]"
    and mr: "map requires_grad h' = [True, True, True]"
    and C: "call_backward exact (MatmulBw 0 1 2) (set_grad h' 2 ones) = Inr h2"
    and ga: "grad (h2 ! 0) = NdArray [2, 3] [1, 1, 2, 1, 1, 2]"
    and gb: "grad (h2 ! 1) = NdArray [3, 2] [5, 5, 7, 7, 9, 9]"
    by simp_all
  define h1 where "h1 = set_grad h' 2 ones"
  have nth: "\<And>f i. i < 3 \<Longrightarrow> f (h' ! i) = map f h' ! i" using len by simp
  have d: "data (h' ! 0) = NdArray [2, 3] [1, 2, 3, 4, 5, 6]"
    "data (h' ! 1) = NdArray [3, 2] [1, 0, 0, 1, 1, 1]"
    "data (h' ! 2) = NdArray [2, 2] [4, 5, 10, 11]"
    by (simp_all add: nth md two_matrices_def)
  have g: "grad (h' ! 0) = NdArray [2, 3] [0, 0, 0, 0, 0, 0]"
    "grad (h' ! 1) = NdArray [3, 2] [0, 0, 0, 0, 0, 0]"
    by (simp_all add: nth mg two_matrices_def)
  have r: "requires_grad (h' ! 0)" "requires_grad (h' ! 1)"
    by (simp_all add: nth mr)
  have h1: "length h1 = 3" "data (h1 ! 0) = NdArray [2, 3] [1, 2, 3, 4, 5, 6]"
    "data (h1 ! 1) = NdArray [3, 2] [1, 0, 0, 1, 1, 1]"
    "grad (h1 ! 0) = NdArray [2, 3] [0, 0, 0, 0, 0, 0]"
    "grad (h1 ! 1) = NdArray [3, 2] [0, 0, 0, 0, 0, 0]"
    "grad (h1 ! 2) = ones" "requires_grad (h1 ! 0)" "requires_grad (h1 ! 1)"
    by (simp_all add: h1_def len d g r d [simplified] g [simplified] r [simplified] set_grad_nth)
  have t: "data (two_matrices ! 0) = NdArray [2, 3] [1, 2, 3, 4, 5, 6]"
    "data (two_matrices ! 1) = NdArray [3, 2] [1, 0, 0, 1, 1, 1]"
    by (simp_all add: two_matrices_def)
  have e: "np_T exact (NdArray [3, 2] [1, 0, 0, 1, 1, 1]) = Inr (NdArray [2, 3] [1, 0, 1, 0, 1, 1])"
    "py_matmul exact ones (NdArray [2, 3] [1, 0, 1, 0, 1, 1]) = Inr (NdArray [2, 3] [1, 1, 2, 1, 1, 2])"
    "np_T exact (NdArray [2, 3] [1, 2, 3, 4, 5, 6]) = Inr (NdArray [3, 2] [1, 4, 2, 5, 3, 6])"
    "py_matmul exact (NdArray [3, 2] [1, 4, 2, 5, 3, 6]) ones = Inr (NdArray [3, 2] [5, 5, 7, 7, 9, 9])"
    by (simp_all add: exact_def ones_def upt_conv_Cons)
  have s: "np_shape exact (NdArray [2, 3] [1, 2, 3, 4, 5, 6]) = Inr [2, 3]"
    "np_shape exact (NdArray [3, 2] [1, 0, 0, 1, 1, 1]) = Inr [3, 2]"
    "np_shape exact ones = Inr [2, 2]"
    "np_shape exact (NdArray [2, 3] [0, 0, 0, 0, 0, 0]) = Inr [2, 3]"
    "np_shape exact (NdArray [3, 2] [0, 0, 0, 0, 0, 0]) = Inr [3, 2]"
    by (simp_all add: exact_def ones_def)
  note T = Matmul_forward_and_backward [where np = exact and h = two_matrices and a = 0 and b = 1
      and h' = h' and z = 2 and ?h1.0 = h1 and ?h2.0 = h2 and m = 2 and k = 3 and n = 2
      and bT = "NdArray [2, 3] [1, 0, 1, 0, 1, 1]" and ga = "NdArray [2, 3] [1, 1, 2, 1, 1, 2]"
      and aT = "NdArray [3, 2] [1, 4, 2, 5, 3, 6]" and gb = "NdArray [3, 2] [5, 5, 7, 7, 9, 9]"]
  from T M C [folded h1_def] h1 t e s exact_shape_laws
  have "data (h' ! 2) = NdArray [2, 2] [4, 5, 10, 11]"
    "np_shape exact (grad (h2 ! 0)) = Inr [2, 3]" "np_shape exact (grad (h2 ! 1)) = Inr [3, 2]"
    by (simp_all add: d)
  with M C ga gb show ?thesis unfolding ones_def by blast
qed

text \<open>
  C4. As stated, the claim fails: the second call sets the \<open>grad\<close> of the root to all
  ones again, and the grads below the root's operands grow by more than a second copy,
  since the intermediate grads they are computed from are not reset. For
  \<open>r = Neg(Neg(a))\<close> with \<open>a = [2]\<close> the grads of \<open>a\<close>, \<open>Neg(a)\<close> and \<open>r\<close> are
  \<open>[1]\<close>, \<open>[-1]\<close>, \<open>[1]\<close> after the first call and \<open>[3]\<close>, \<open>[-2]\<close>, \<open>[1]\<close> after the
  second.
\<close>

theorem second_backward_does_not_double:
  "bindr (leaf exact [] (NdArray [1] [2]) True) (\<lambda>(h, a).
   bindr (Neg exact h a) (\<lambda>(h, p).
   bindr (Neg exact h p) (\<lambda>(h, r).
   bindr (backward exact h r) (\<lambda>h1.
   bindr (backward exact h1 r) (\<lambda>h2.
   Inr (map grad h1, map grad h2))))))
   = Inr ([NdArray [1] [1], NdArray [1] [- 1], NdArray [1] [1]],
          [NdArray [1] [3], NdArray [1] [- 2], NdArray [1] [1]])"
  by (simp add: run_defs Neg_def)

text \<open>
  C4, amended. On a store built by the constructors, a second call of \<open>backward\<close> on
  the same root, without resetting any grad, sets the grad of the root to all ones again
  (it is not doubled) and replays the same recorded order. Every node whose only
  consumer among the recorded nodes is the root, other than the second operand of a
  root \<open>Mul\<close>, receives in the second call exactly the addends it received in the first:
  a second copy of its gradient. Nodes further from the root receive more than that.
\<close>

theorem second_backward_adds_the_same_addends:
  assumes wf: "wf_store h" and self: "self < length h"
    and b1: "backward np h self = Inr h1" and b2: "backward np h1 self = Inr h2"
  shows "np_ones_like np (data (h ! self)) = Inr (grad (h1 ! self)) \<and>
         grad (h2 ! self) = grad (h1 ! self) \<and>
         topo_order h1 self = topo_order h self \<and>
         (x < length h \<and> x \<noteq> self \<and>
          (\<forall>n \<in> set (topo_order h self). n \<noteq> self \<longrightarrow> x \<notin> operands (backward_fn (h ! n))) \<and>
          (\<forall>a z. backward_fn (h ! self) \<noteq> MulBw a x z) \<longrightarrow>
          (\<exists>ds. iadd_all np (grad (h ! x)) ds = Inr (grad (h1 ! x)) \<and>
                iadd_all np (grad (h1 ! x)) ds = Inr (grad (h2 ! x))))"
proof -
  define c where "c = backward_fn (h ! self)"
  from backward_steps [OF wf b1] obtain ones ys ha where
    o: "np_ones_like np (data (h ! self)) = Inr ones" and
    ys: "topo_order h self = ys @ [self]" "self \<notin> set ys" and
    ca: "call_backward np c (set_grad h self ones) = Inr ha" and
    ra: "run_backwards np (rev ys) ha = Inr h1"
    unfolding c_def by blast
  define hs where "hs = set_grad h self ones"
  have w_all1: "writes_only (\<Union>n\<in>set (rev (topo_order h self)). operands (backward_fn (hs ! n))) hs h1"
    using b1 o unfolding hs_def
    by (intro run_backwards_writes) (simp add: backward_Inr)
  have sg1: "same_graph h h1"
    using writes_only_same_graph [OF w_all1]
    by (auto simp: hs_def intro: same_graph_trans [OF same_graph_set_grad])
  have same1: "\<And>n. backward_fn (h1 ! n) = backward_fn (h ! n)" "\<And>n. data (h1 ! n) = data (h ! n)"
    "length h1 = length h" "\<And>n. prev (h1 ! n) = prev (h ! n)"
    using sg1 by (simp_all add: same_graph_def)
  have wf1: "wf_store h1" using wf by (simp add: wf_store_def same1)
  have t1: "topo_order h1 self = topo_order h self" by (rule same_graph_topo_order [OF sg1])
  from backward_steps [OF wf1 b2] obtain ones' ys' hb where
    o': "np_ones_like np (data (h1 ! self)) = Inr ones'" and
    ys': "topo_order h1 self = ys' @ [self]" and
    cb: "call_backward np (backward_fn (h1 ! self)) (set_grad h1 self ones') = Inr hb" and
    rb: "run_backwards np (rev ys') hb = Inr h2"
    by blast
  from o o' have oo: "ones' = ones" by (simp add: same1)
  from ys ys' t1 have yy: "ys' = ys" by simp
  define hs2 where "hs2 = set_grad h1 self ones"
  have cb': "call_backward np c hs2 = Inr hb" using cb by (simp add: hs2_def c_def same1 oo)
  have rb': "run_backwards np (rev ys) hb = Inr h2" using rb by (simp add: yy)
  have w_all2: "writes_only (\<Union>n\<in>set (rev (topo_order h self)). operands (backward_fn (hs2 ! n))) hs2 h2"
    using b2 o' unfolding hs2_def
    by (intro run_backwards_writes) (simp add: backward_Inr oo t1)
  have notop: "\<And>n. n \<in> set (topo_order h self) \<Longrightarrow> self \<notin> operands (backward_fn (h ! n))"
    by (rule root_not_an_operand [OF wf self])
  have g1: "grad (h1 ! self) = ones"
    using w_all1 notop self by (auto simp: writes_only_def hs_def grad_set_grad)
  have g2: "grad (h2 ! self) = ones"
    using w_all2 notop self by (auto simp: writes_only_def hs2_def grad_set_grad same1)
  have main: "\<exists>ds. iadd_all np (grad (h ! x)) ds = Inr (grad (h1 ! x)) \<and>
                iadd_all np (grad (h1 ! x)) ds = Inr (grad (h2 ! x))"
    if x: "x < length h" "x \<noteq> self"
      and only: "\<forall>n \<in> set (topo_order h self). n \<noteq> self \<longrightarrow> x \<notin> operands (backward_fn (h ! n))"
      and nomul: "\<forall>a z. backward_fn (h ! self) \<noteq> MulBw a x z"
  proof -
    have wa: "writes_only (operands c) hs ha" using ca unfolding hs_def by (rule call_backward_writes)
    have wb: "writes_only (operands c) hs2 hb" using cb' by (rule call_backward_writes)
    have sga: "same_graph h ha"
      using writes_only_same_graph [OF wa]
      by (auto simp: hs_def intro: same_graph_trans [OF same_graph_set_grad])
    have sgb: "same_graph h hb"
      using writes_only_same_graph [OF wb] sg1
      by (auto simp: hs2_def intro: same_graph_trans [OF same_graph_trans [OF _ same_graph_set_grad]])
    have resta: "writes_only (\<Union>n\<in>set (rev ys). operands (backward_fn (ha ! n))) ha h1"
      by (rule run_backwards_writes [OF ra])
    have restb: "writes_only (\<Union>n\<in>set (rev ys). operands (backward_fn (hb ! n))) hb h2"
      by (rule run_backwards_writes [OF rb'])
    have xnot: "\<And>n. n \<in> set ys \<Longrightarrow> x \<notin> operands (backward_fn (h ! n))"
      using only ys by auto
    have e1: "grad (h1 ! x) = grad (ha ! x)"
      using resta xnot sga by (auto simp: writes_only_def same_graph_def)
    have e2: "grad (h2 ! x) = grad (hb ! x)"
      using restb xnot sgb by (auto simp: writes_only_def same_graph_def)
    have s0: "grad (hs ! x) = grad (h ! x)" "grad (hs2 ! x) = grad (h1 ! x)"
      using x by (simp_all add: hs_def hs2_def)
    have sg: "same_graph hs hs2"
      using sg1 by (simp add: hs_def hs2_def same_graph_def)
    have gz: "grad (hs ! self) = grad (hs2 ! self)"
      using self by (simp add: hs_def hs2_def grad_set_grad same1)
    have res: "result_of c \<subseteq> {self}" unfolding c_def by (rule wf_store_result [OF wf self])
    have zn: "self \<notin> operands c" unfolding c_def using notop [of self] ys by simp
    have nm: "\<forall>a z'. c \<noteq> MulBw a x z'" using nomul by (simp add: c_def)
    have xl: "x < length hs" using x by (simp add: hs_def)
    from closure_same_addends [OF ca [folded hs_def] cb' sg gz res zn nm xl]
    show ?thesis by (simp add: s0 e1 e2)
  qed
  from o g1 g2 t1 main show ?thesis by simp
qed

theorem second_backward_adds_the_same_addends_witness:
  "\<exists>h z h1 h2. Add exact two_leaves 0 1 = Inr (h, z) \<and> wf_store h \<and>
      backward exact h z = Inr h1 \<and> backward exact h1 z = Inr h2 \<and>
      grad (h1 ! z) = NdArray [1, 1] [1] \<and> grad (h2 ! z) = NdArray [1, 1] [1] \<and>
      grad (h ! 0) = NdArray [1, 1] [0] \<and> grad (h1 ! 0) = NdArray [1, 1] [1] \<and>
      grad (h2 ! 0) = NdArray [1, 1] [2] \<and>
      (\<exists>ds. iadd_all exact (grad (h ! 0)) ds = Inr (grad (h1 ! 0)) \<and>
            iadd_all exact (grad (h1 ! 0)) ds = Inr (grad (h2 ! 0)))"
proof -
  have "\<exists>h z h1 h2. Add exact two_leaves 0 1 = Inr (h, z) \<and> z = 2 \<and> length h = 3 \<and>
      map backward_fn h = [NoOp, NoOp, AddBw 0 1 2] \<and> topo_order h z = [0, 1, 2] \<and>
      backward exact h z = Inr h1 \<and> backward exact h1 z = Inr h2 \<and>
      grad (h1 ! z) = NdArray [1, 1] [1] \<and> grad (h2 ! z) = NdArray [1, 1] [1] \<and>
      grad (h ! 0) = NdArray [1, 1] [0] \<and> grad (h1 ! 0) = NdArray [1, 1] [1] \<and>
      grad (h2 ! 0) = NdArray [1, 1] [2]"
    by (simp add: Add_def run_defs two_leaves_def)
  then obtain h z h1 h2 where e: "Add exact two_leaves 0 1 = Inr (h, z) \<and> z = 2 \<and> length h = 3 \<and>
      map backward_fn h = [NoOp, NoOp, AddBw 0 1 2] \<and> topo_order h z = [0, 1, 2] \<and>
      backward exact h z = Inr h1 \<and> backward exact h1 z = Inr h2 \<and>
      grad (h1 ! z) = NdArray [1, 1] [1] \<and> grad (h2 ! z) = NdArray [1, 1] [1] \<and>
      grad (h ! 0) = NdArray [1, 1] [0] \<and> grad (h1 ! 0) = NdArray [1, 1] [1] \<and>
      grad (h2 ! 0) = NdArray [1, 1] [2]"
    by (elim exE) (rule that)
  then have A: "Add exact two_leaves 0 1 = Inr (h, z)" and z: "z = 2" and len: "length h = 3"
    and bf: "map backward_fn h = [NoOp, NoOp, AddBw 0 1 2]" and t: "topo_order h z = [0, 1, 2]"
    and b1: "backward exact h z = Inr h1" and b2: "backward exact h1 z = Inr h2"
    and g: "grad (h1 ! z) = NdArray [1, 1] [1]" "grad (h2 ! z) = NdArray [1, 1] [1]"
      "grad (h ! 0) = NdArray [1, 1] [0]" "grad (h1 ! 0) = NdArray [1, 1] [1]"
      "grad (h2 ! 0) = NdArray [1, 1] [2]"
    by blast+
  have wf: "wf_store h"
    by (rule constructors_keep_wf_store(2) [OF wf_store_two_leaves _ _ A])
      (simp_all add: two_leaves_def)
  have nth: "\<And>i. i < 3 \<Longrightarrow> backward_fn (h ! i) = map backward_fn h ! i" using len by simp
  have c: "backward_fn (h ! 0) = NoOp" "backward_fn (h ! 1) = NoOp"
    "backward_fn (h ! 2) = AddBw 0 1 2"
    by (simp_all add: nth bf)
  have hyp: "0 < length h \<and> 0 \<noteq> z \<and>
      (\<forall>n \<in> set (topo_order h z). n \<noteq> z \<longrightarrow> 0 \<notin> operands (backward_fn (h ! n))) \<and>
      (\<forall>a z'. backward_fn (h ! z) \<noteq> MulBw a 0 z')"
    by (simp add: len z t [unfolded z] c c [simplified])
  have sl: "z < length h" by (simp add: z len)
  from second_backward_adds_the_same_addends [OF wf sl b1 b2, of 0] hyp
  have "\<exists>ds. iadd_all exact (grad (h ! 0)) ds = Inr (grad (h1 ! 0)) \<and>
            iadd_all exact (grad (h1 ! 0)) ds = Inr (grad (h2 ! 0))"
    by blast
  with A wf b1 b2 g show ?thesis by blast
qed

text \<open>
  C5. A node used by two downstream operations should end with the sum of what each
  consumer contributes on its own. The closure of \<open>Mul\<close> adds \<open>a.grad * z.grad\<close> into
  \<open>b.grad\<close>, so when \<open>a\<close> and \<open>b\<close> are the same node, what it adds depends on what the
  other consumers have added before. With \<open>x = [3]\<close>, \<open>backward\<close> on \<open>Mul(x, x)\<close> alone
  leaves \<open>x.grad = [6]\<close>; on \<open>Add(Mul(x, x), Mul(x, x))\<close>, where each product receives
  the gradient \<open>[1]\<close> as before, it leaves \<open>x.grad = [18]\<close> and not \<open>[6] + [6] = [12]\<close>.
\<close>

theorem Mul_of_a_node_with_itself_breaks_accumulation:
  "bindr (leaf exact [] (NdArray [1] [3]) True) (\<lambda>(h, x).
   bindr (Mul exact h x x) (\<lambda>(h, p).
   bindr (backward exact h p) (\<lambda>h'. Inr (grad (h' ! x)))))
   = Inr (NdArray [1] [6]) \<and>
   bindr (leaf exact [] (NdArray [1] [3]) True) (\<lambda>(h, x).
   bindr (Mul exact h x x) (\<lambda>(h, p1).
   bindr (Mul exact h x x) (\<lambda>(h, p2).
   bindr (Add exact h p1 p2) (\<lambda>(h, r).
   bindr (backward exact h r) (\<lambda>h'. Inr (grad (h' ! p1), grad (h' ! p2), grad (h' ! x)))))))
   = Inr (NdArray [1] [1], NdArray [1] [1], NdArray [1] [18])"
  by (simp add: run_defs Mul_def Add_def)

text \<open>
  C6. For every operation constructor, the \<open>requires_grad\<close> flag of the result node is
  the logical OR of the flags of its operands; for the unary constructors \<open>Neg\<close>, \<open>Pow\<close>
  and \<open>Exp\<close> it is the flag of the single operand. \<open>Sub\<close> is \<open>Add(a, Neg(b))\<close> and
  inherits the rule.
\<close>

theorem requires_grad_is_or_of_operands:
  "(Add np h a b = Inr (h1, z1) \<longrightarrow>
      requires_grad (h1 ! z1) = (requires_grad (h ! a) \<or> requires_grad (h ! b))) \<and>
   (Mul np h a b = Inr (h2, z2) \<longrightarrow>
      requires_grad (h2 ! z2) = (requires_grad (h ! a) \<or> requires_grad (h ! b))) \<and>
   (Matmul np h a b = Inr (h3, z3) \<longrightarrow>
      requires_grad (h3 ! z3) = (requires_grad (h ! a) \<or> requires_grad (h ! b))) \<and>
   (Div np h a b = Inr (h4, z4) \<longrightarrow>
      requires_grad (h4 ! z4) = (requires_grad (h ! a) \<or> requires_grad (h ! b))) \<and>
   (Neg np h a = Inr (h5, z5) \<longrightarrow> requires_grad (h5 ! z5) = requires_grad (h ! a)) \<and>
   (Pow_op np h a p = Inr (h6, z6) \<longrightarrow> requires_grad (h6 ! z6) = requires_grad (h ! a)) \<and>
   (Exp np h a = Inr (h7, z7) \<longrightarrow> requires_grad (h7 ! z7) = requires_grad (h ! a)) \<and>
   (a < length h \<and> b < length h \<and> Tensor_sub np h a (Tens b) = Inr (h8, z8) \<longrightarrow>
      requires_grad (h8 ! z8) = (requires_grad (h ! a) \<or> requires_grad (h ! b)))"
proof (intro conjI impI)
  assume "Add np h a b = Inr (h1, z1)"
  then show "requires_grad (h1 ! z1) = (requires_grad (h ! a) \<or> requires_grad (h ! b))"
    by (auto simp: Add_Inr)
next
  assume "Mul np h a b = Inr (h2, z2)"
  then show "requires_grad (h2 ! z2) = (requires_grad (h ! a) \<or> requires_grad (h ! b))"
    by (auto simp: Mul_Inr)
next
  assume "Matmul np h a b = Inr (h3, z3)"
  then show "requires_grad (h3 ! z3) = (requires_grad (h ! a) \<or> requires_grad (h ! b))"
    by (auto simp: Matmul_Inr)
next
  assume "Div np h a b = Inr (h4, z4)"
  then show "requires_grad (h4 ! z4) = (requires_grad (h ! a) \<or> requires_grad (h ! b))"
    by (auto simp: Div_Inr)
next
  assume "Neg np h a = Inr (h5, z5)"
  then show "requires_grad (h5 ! z5) = requires_grad (h ! a)"
    by (auto simp: Neg_Inr)
next
  assume "Pow_op np h a p = Inr (h6, z6)"
  then show "requires_grad (h6 ! z6) = requires_grad (h ! a)"
    by (auto simp: Pow_op_Inr)
next
  assume "Exp np h a = Inr (h7, z7)"
  then show "requires_grad (h7 ! z7) = requires_grad (h ! a)"
    by (auto simp: Exp_Inr)
next
  assume "a < length h \<and> b < length h \<and> Tensor_sub np h a (Tens b) = Inr (h8, z8)"
  then show "requires_grad (h8 ! z8) = (requires_grad (h ! a) \<or> requires_grad (h ! b))"
    using Sub_requires_grad by blast
qed

theorem requires_grad_is_or_of_operands_witness:
  "(\<exists>h' z. Add exact two_leaves 0 1 = Inr (h', z) \<and> requires_grad (h' ! z)) \<and>
   (\<exists>h' z. Mul exact two_leaves 0 1 = Inr (h', z) \<and> requires_grad (h' ! z)) \<and>
   (\<exists>h' z. Matmul exact two_leaves 0 1 = Inr (h', z) \<and> requires_grad (h' ! z)) \<and>
   (\<exists>h' z. Div exact two_leaves 0 1 = Inr (h', z) \<and> requires_grad (h' ! z)) \<and>
   (\<exists>h' z. Neg exact two_leaves 0 = Inr (h', z) \<and> requires_grad (h' ! z)) \<and>
   (\<exists>h' z. Pow_op exact two_leaves 0 (PyNum 2) = Inr (h', z) \<and> requires_grad (h' ! z)) \<and>
   (\<exists>h' z. Exp exact two_leaves 0 = Inr (h', z) \<and> requires_grad (h' ! z)) \<and>
   (\<exists>h' z. Tensor_sub exact two_leaves 0 (Tens 1) = Inr (h', z) \<and> requires_grad (h' ! z))"
proof -
  obtain h1 z1 where 1: "Add exact two_leaves 0 1 = Inr (h1, z1)"
    by (simp add: Add_Inr two_leaves_def exact_def)
  obtain h2 z2 where 2: "Mul exact two_leaves 0 1 = Inr (h2, z2)"
    by (simp add: Mul_Inr two_leaves_def exact_def)
  obtain h3 z3 where 3: "Matmul exact two_leaves 0 1 = Inr (h3, z3)"
    by (simp add: Matmul_Inr two_leaves_def exact_def)
  obtain h4 z4 where 4: "Div exact two_leaves 0 1 = Inr (h4, z4)"
    by (simp add: Div_Inr two_leaves_def exact_def divide_val_def)
  obtain h5 z5 where 5: "Neg exact two_leaves 0 = Inr (h5, z5)"
    by (simp add: Neg_Inr two_leaves_def exact_def)
  obtain h6 z6 where 6: "Pow_op exact two_leaves 0 (PyNum 2) = Inr (h6, z6)"
    by (simp add: Pow_op_Inr two_leaves_def exact_def)
  obtain h7 z7 where 7: "Exp exact two_leaves 0 = Inr (h7, z7)"
    by (simp add: Exp_Inr two_leaves_def exact_def)
  have "\<exists>h8 z8. Tensor_sub exact two_leaves 0 (Tens 1) = Inr (h8, z8)"
    by (simp add: Tensor_sub_def Tensor_add_def Tensor_neg_def coerce_def Neg_def Add_def
        Tensor_def set_backward_def two_leaves_def exact_def)
  then obtain h8 z8 where 8: "Tensor_sub exact two_leaves 0 (Tens 1) = Inr (h8, z8)"
    by blast
  have rg: "requires_grad (two_leaves ! 0)" "0 < length two_leaves" "1 < length two_leaves"
    by (simp_all add: two_leaves_def)
  note T = requires_grad_is_or_of_operands [where np = exact and h = two_leaves and a = 0
      and b = 1 and ?h1.0 = h1 and ?z1.0 = z1 and ?h2.0 = h2 and ?z2.0 = z2
      and ?h3.0 = h3 and ?z3.0 = z3 and ?h4.0 = h4 and ?z4.0 = z4 and ?h5.0 = h5
      and ?z5.0 = z5 and p = "PyNum 2" and ?h6.0 = h6 and ?z6.0 = z6 and ?h7.0 = h7
      and ?z7.0 = z7 and ?h8.0 = h8 and ?z8.0 = z8]
  from T 1 2 3 4 5 6 7 8 rg show ?thesis
    by simp
qed

text \<open>
  C7. As stated, the claim fails at the root: \<open>backward\<close> sets the \<open>grad\<close> of the root to
  all ones whether or not the root requires a gradient. A leaf \<open>[5]\<close> with
  \<open>requires_grad = False\<close>, used as the root, has \<open>grad = [0]\<close> before and \<open>[1]\<close> after.
\<close>

theorem root_without_requires_grad_gets_ones:
  "bindr (leaf exact [] (NdArray [1] [5]) False) (\<lambda>(h, r).
   bindr (backward exact h r) (\<lambda>h'.
   Inr (requires_grad (h' ! r), grad (h ! r), grad (h' ! r))))
   = Inr (False, NdArray [1] [0], NdArray [1] [1])"
  by (simp add: run_defs)

text \<open>
  C7, amended. For every node other than the root whose \<open>requires_grad\<close> is false,
  \<open>backward\<close> on any root leaves its \<open>grad\<close> as it was (all zeros, if nothing had been
  written to it before); a root whose \<open>requires_grad\<close> is false ends with the all-ones
  seed as its \<open>grad\<close>; and no backward closure, when invoked, changes the \<open>grad\<close> of a
  node whose \<open>requires_grad\<close> is false.
\<close>

theorem backward_writes_no_grad_except_seed:
  "(backward np h self = Inr h' \<and> n \<noteq> self \<and> \<not> requires_grad (h ! n) \<longrightarrow>
      grad (h' ! n) = grad (h ! n)) \<and>
   (backward np h self = Inr h' \<and> self < length h \<and> \<not> requires_grad (h ! self) \<longrightarrow>
      np_ones_like np (data (h ! self)) = Inr (grad (h' ! self))) \<and>
   (call_backward np c h1 = Inr h2 \<and> \<not> requires_grad (h1 ! m) \<longrightarrow>
      grad (h2 ! m) = grad (h1 ! m))"
proof (intro conjI impI)
  assume a: "backward np h self = Inr h' \<and> n \<noteq> self \<and> \<not> requires_grad (h ! n)"
  then obtain g where
    r: "run_backwards np (rev (topo_order h self)) (set_grad h self g) = Inr h'"
    by (auto simp: backward_Inr)
  from a have "\<not> requires_grad (set_grad h self g ! n)" by simp
  from run_backwards_no_grad [OF r this] a show "grad (h' ! n) = grad (h ! n)" by simp
next
  assume a: "backward np h self = Inr h' \<and> self < length h \<and> \<not> requires_grad (h ! self)"
  then obtain g where g: "np_ones_like np (data (h ! self)) = Inr g" and
    r: "run_backwards np (rev (topo_order h self)) (set_grad h self g) = Inr h'"
    by (auto simp: backward_Inr)
  from a have "\<not> requires_grad (set_grad h self g ! self)" by simp
  from run_backwards_no_grad [OF r this] a g
  show "np_ones_like np (data (h ! self)) = Inr (grad (h' ! self))"
    by (simp add: grad_set_grad)
next
  assume "call_backward np c h1 = Inr h2 \<and> \<not> requires_grad (h1 ! m)"
  then show "grad (h2 ! m) = grad (h1 ! m)"
    using call_backward_writes [of np c h1 h2] by (simp add: writes_only_def)
qed

theorem backward_writes_no_grad_except_seed_witness:
  "(\<exists>h z h'. Add exact two_leaves 0 1 = Inr (h, z) \<and> backward exact h z = Inr h' \<and>
       \<not> requires_grad (h ! 1) \<and> grad (h ! 1) = NdArray [1, 1] [0] \<and>
       grad (h' ! 1) = NdArray [1, 1] [0]) \<and>
   (\<exists>h'. backward exact two_leaves 1 = Inr h' \<and> \<not> requires_grad (two_leaves ! 1) \<and>
       grad (h' ! 1) = NdArray [1, 1] [1]) \<and>
   (\<exists>h z h2. Add exact two_leaves 0 1 = Inr (h, z) \<and>
       call_backward exact (AddBw 0 1 z) h = Inr h2 \<and> grad (h2 ! 1) = NdArray [1, 1] [0])"
proof -
  have "\<exists>h z h'. Add exact two_leaves 0 1 = Inr (h, z) \<and> backward exact h z = Inr h'"
    by (simp add: Add_def run_defs two_leaves_def)
  then obtain h z h' where A: "Add exact two_leaves 0 1 = Inr (h, z)"
    and B: "backward exact h z = Inr h'" by blast
  from A have h1: "\<not> requires_grad (h ! 1)" "grad (h ! 1) = NdArray [1, 1] [0]" "1 \<noteq> z"
    by (auto simp: Add_Inr two_leaves_def)
  have "\<exists>k. backward exact two_leaves 1 = Inr k"
    by (simp add: run_defs two_leaves_def)
  then obtain k where C: "backward exact two_leaves 1 = Inr k" by blast
  have t: "\<not> requires_grad (two_leaves ! 1)" "1 < length two_leaves"
    "np_ones_like exact (data (two_leaves ! 1)) = Inr (NdArray [1, 1] [1])"
    by (simp_all add: two_leaves_def exact_def)
  have "\<exists>h2. call_backward exact (AddBw 0 1 z) h = Inr h2"
    using A by (auto simp: Add_Inr two_leaves_def run_defs)
  then obtain h2 where D: "call_backward exact (AddBw 0 1 z) h = Inr h2" by blast
  from backward_writes_no_grad_except_seed [of exact h z h' 1 "AddBw 0 1 z" h h2 1]
    A B D h1
  have 1: "grad (h' ! 1) = NdArray [1, 1] [0]" "grad (h2 ! 1) = NdArray [1, 1] [0]"
    by simp_all
  from backward_writes_no_grad_except_seed [of exact two_leaves 1 k 0 NoOp two_leaves two_leaves 1]
    C t
  have 2: "grad (k ! 1) = NdArray [1, 1] [1]" by simp
  from A B C D h1 t 1 2 show ?thesis by blast
qed

text \<open>
  C8. As stated, the claim fails for \<open>Matmul\<close>: \<open>__matmul__\<close> performs no coercion, and
  \<open>Matmul\<close> over a Tensor and a raw number produces no node. With \<open>t = [[2]]\<close>,
  \<open>t @ 3\<close> raises whether or not \<open>t\<close> requires a gradient.
\<close>

theorem Matmul_of_a_raw_number_fails:
  "Tensor_matmul exact two_leaves 0 (Raw (PyNum 3)) = Inl AttributeError \<and>
   Tensor_matmul exact two_leaves 1 (Raw (PyNum 3)) = Inl AttributeError"
  by (simp add: Tensor_matmul_def Matmul_raw_def raw_data_def exact_def two_leaves_def)

text \<open>
  C8, amended. The operator methods of \<open>Add\<close>, \<open>Mul\<close>, \<open>Div\<close> and \<open>Sub\<close> accept a raw
  numeric literal in place of a Tensor operand and coerce it into a new leaf (its data
  the literal, no children, \<open>requires_grad\<close> false, a no-op closure) before they
  compute: the result is built by the constructor from the first operand and that leaf,
  and for \<open>Sub\<close> from the first operand and the negation of that leaf. \<open>Matmul\<close> over a
  Tensor and a raw number produces no node: the call fails.
\<close>

theorem operators_coerce_a_raw_operand:
  "(a < length h \<longrightarrow>
        (Tensor_add np h a (Raw v) = Inr (h', z) \<longleftrightarrow>
           (\<exists>g0 d g. np_zeros_like np v = Inr g0 \<and> py_add np (data (h ! a)) v = Inr d \<and>
              np_zeros_like np d = Inr g \<and> z = Suc (length h) \<and>
              h' = h @ [raw_leaf v g0,
                   \<lparr>data = d, children = [], grad = g,
                     backward_fn = AddBw a (length h) (Suc (length h)),
                     prev = [a, length h], op = ''+'', label = '''',
                     requires_grad = requires_grad (h ! a)\<rparr>]))) \<and>
     (a < length h \<longrightarrow>
        (Tensor_mul np h a (Raw v) = Inr (h', z) \<longleftrightarrow>
           (\<exists>g0 d g. np_zeros_like np v = Inr g0 \<and> py_mul np (data (h ! a)) v = Inr d \<and>
              np_zeros_like np d = Inr g \<and> z = Suc (length h) \<and>
              h' = h @ [raw_leaf v g0,
                   \<lparr>data = d, children = [], grad = g,
                     backward_fn = MulBw a (length h) (Suc (length h)),
                     prev = [a, length h], op = ''*'', label = '''',
                     requires_grad = requires_grad (h ! a)\<rparr>]))) \<and>
     (a < length h \<longrightarrow>
        (Tensor_truediv np h a (Raw v) = Inr (h', z) \<longleftrightarrow>
           (\<exists>g0 d g. np_zeros_like np v = Inr g0 \<and> py_truediv np (data (h ! a)) v = Inr d \<and>
              np_zeros_like np d = Inr g \<and> z = Suc (length h) \<and>
              h' = h @ [raw_leaf v g0,
                   \<lparr>data = d, children = [], grad = g,
                     backward_fn = DivBw a (length h) (Suc (length h)),
                     prev = [a, length h], op = ''*'', label = '''',
                     requires_grad = requires_grad (h ! a)\<rparr>]))) \<and>
     (a < length h \<longrightarrow>
        (Tensor_sub np h a (Raw v) = Inr (h', z) \<longleftrightarrow>
           (\<exists>g0 n gn d g. np_zeros_like np v = Inr g0 \<and>
              py_mul np v (py_int np (- 1)) = Inr n \<and> np_zeros_like np n = Inr gn \<and>
              py_add np (data (h ! a)) n = Inr d \<and> np_zeros_like np d = Inr g \<and>
              z = Suc (Suc (length h)) \<and>
              h' = h @ [raw_leaf v g0,
                   \<lparr>data = n, children = [], grad = gn,
                     backward_fn = NegBw (length h) (Suc (length h)),
                     prev = [length h], op = ''neg'', label = '''',
                     requires_grad = False\<rparr>,
                   \<lparr>data = d, children = [], grad = g,
                     backward_fn = AddBw a (Suc (length h)) (Suc (Suc (length h))),
                     prev = [a, Suc (length h)], op = ''+'', label = '''',
                     requires_grad = requires_grad (h ! a)\<rparr>]))) \<and>
     (py_is_number np v \<longrightarrow> (\<exists>e. Tensor_matmul np h a (Raw v) = Inl e))"
proof (intro conjI impI)
  assume a: "a < length h"
  show "Tensor_add np h a (Raw v) = Inr (h', z) \<longleftrightarrow>
         (\<exists>g0 d g. np_zeros_like np v = Inr g0 \<and> py_add np (data (h ! a)) v = Inr d \<and>
            np_zeros_like np d = Inr g \<and> z = Suc (length h) \<and>
            h' = h @ [raw_leaf v g0,
                 \<lparr>data = d, children = [], grad = g,
                   backward_fn = AddBw a (length h) (Suc (length h)),
                   prev = [a, length h], op = ''+'', label = '''',
                   requires_grad = requires_grad (h ! a)\<rparr>])"
    using a by (auto simp: operator_raw bindr_eq_Inr Add_Inr nth_append)
next
  assume a: "a < length h"
  show "Tensor_mul np h a (Raw v) = Inr (h', z) \<longleftrightarrow>
         (\<exists>g0 d g. np_zeros_like np v = Inr g0 \<and> py_mul np (data (h ! a)) v = Inr d \<and>
            np_zeros_like np d = Inr g \<and> z = Suc (length h) \<and>
            h' = h @ [raw_leaf v g0,
                 \<lparr>data = d, children = [], grad = g,
                   backward_fn = MulBw a (length h) (Suc (length h)),
                   prev = [a, length h], op = ''*'', label = '''',
                   requires_grad = requires_grad (h ! a)\<rparr>])"
    using a by (auto simp: operator_raw bindr_eq_Inr Mul_Inr nth_append)
next
  assume a: "a < length h"
  show "Tensor_truediv np h a (Raw v) = Inr (h', z) \<longleftrightarrow>
         (\<exists>g0 d g. np_zeros_like np v = Inr g0 \<and> py_truediv np (data (h ! a)) v = Inr d \<and>
            np_zeros_like np d = Inr g \<and> z = Suc (length h) \<and>
            h' = h @ [raw_leaf v g0,
                 \<lparr>data = d, children = [], grad = g,
                   backward_fn = DivBw a (length h) (Suc (length h)),
                   prev = [a, length h], op = ''*'', label = '''',
                   requires_grad = requires_grad (h ! a)\<rparr>])"
    using a by (auto simp: operator_raw bindr_eq_Inr Div_Inr nth_append)
next
  assume a: "a < length h"
  show "Tensor_sub np h a (Raw v) = Inr (h', z) \<longleftrightarrow>
         (\<exists>g0 n gn d g. np_zeros_like np v = Inr g0 \<and>
            py_mul np v (py_int np (- 1)) = Inr n \<and> np_zeros_like np n = Inr gn \<and>
            py_add np (data (h ! a)) n = Inr d \<and> np_zeros_like np d = Inr g \<and>
            z = Suc (Suc (length h)) \<and>
            h' = h @ [raw_leaf v g0,
                 \<lparr>data = n, children = [], grad = gn,
                   backward_fn = NegBw (length h) (Suc (length h)),
                   prev = [length h], op = ''neg'', label = '''',
                   requires_grad = False\<rparr>,
                 \<lparr>data = d, children = [], grad = g,
                   backward_fn = AddBw a (Suc (length h)) (Suc (Suc (length h))),
                   prev = [a, Suc (length h)], op = ''+'', label = '''',
                   requires_grad = requires_grad (h ! a)\<rparr>])"
  proof
    assume "Tensor_sub np h a (Raw v) = Inr (h', z)"
    then obtain g0 h2 nb where g0: "np_zeros_like np v = Inr g0"
      and n: "Neg np (h @ [raw_leaf v g0]) (length h) = Inr (h2, nb)"
      and s: "Add np h2 a nb = Inr (h', z)"
      by (auto simp: operator_raw bindr_eq_Inr)
    from n obtain n' gn where n': "py_mul np v (py_int np (- 1)) = Inr n'"
      "np_zeros_like np n' = Inr gn" "nb = Suc (length h)"
      "h2 = h @ [raw_leaf v g0, \<lparr>data = n', children = [], grad = gn,
                   backward_fn = NegBw (length h) (Suc (length h)),
                   prev = [length h], op = ''neg'', label = '''',
                   requires_grad = False\<rparr>]"
      unfolding Neg_of_new_leaf by auto
    from s obtain d g where d: "py_add np (data (h ! a)) n' = Inr d" "np_zeros_like np d = Inr g"
      "z = Suc (Suc (length h))"
      "h' = h @ [raw_leaf v g0, \<lparr>data = n', children = [], grad = gn,
                   backward_fn = NegBw (length h) (Suc (length h)),
                   prev = [length h], op = ''neg'', label = '''',
                   requires_grad = False\<rparr>,
                 \<lparr>data = d, children = [], grad = g,
                   backward_fn = AddBw a (Suc (length h)) (Suc (Suc (length h))),
                   prev = [a, Suc (length h)], op = ''+'', label = '''',
                   requires_grad = requires_grad (h ! a)\<rparr>]"
      unfolding n'(3,4) Add_of_new_node [OF a] by auto
    from g0 n'(1,2) d show "\<exists>g0 n gn d g. np_zeros_like np v = Inr g0 \<and>
            py_mul np v (py_int np (- 1)) = Inr n \<and> np_zeros_like np n = Inr gn \<and>
            py_add np (data (h ! a)) n = Inr d \<and> np_zeros_like np d = Inr g \<and>
            z = Suc (Suc (length h)) \<and>
            h' = h @ [raw_leaf v g0,
                 \<lparr>data = n, children = [], grad = gn,
                   backward_fn = NegBw (length h) (Suc (length h)),
                   prev = [length h], op = ''neg'', label = '''',
                   requires_grad = False\<rparr>,
                 \<lparr>data = d, children = [], grad = g,
                   backward_fn = AddBw a (Suc (length h)) (Suc (Suc (length h))),
                   prev = [a, Suc (length h)], op = ''+'', label = '''',
                   requires_grad = requires_grad (h ! a)\<rparr>]"
      by blast
  next
    assume "\<exists>g0 n gn d g. np_zeros_like np v = Inr g0 \<and>
            py_mul np v (py_int np (- 1)) = Inr n \<and> np_zeros_like np n = Inr gn \<and>
            py_add np (data (h ! a)) n = Inr d \<and> np_zeros_like np d = Inr g \<and>
            z = Suc (Suc (length h)) \<and>
            h' = h @ [raw_leaf v g0,
                 \<lparr>data = n, children = [], grad = gn,
                   backward_fn = NegBw (length h) (Suc (length h)),
                   prev = [length h], op = ''neg'', label = '''',
                   requires_grad = False\<rparr>,
                 \<lparr>data = d, children = [], grad = g,
                   backward_fn = AddBw a (Suc (length h)) (Suc (Suc (length h))),
                   prev = [a, Suc (length h)], op = ''+'', label = '''',
                   requires_grad = requires_grad (h ! a)\<rparr>]"
    then obtain g0 n gn d g where g0: "np_zeros_like np v = Inr g0"
      and n: "py_mul np v (py_int np (- 1)) = Inr n" "np_zeros_like np n = Inr gn"
      and d: "py_add np (data (h ! a)) n = Inr d" "np_zeros_like np d = Inr g"
      and r: "z = Suc (Suc (length h))"
        "h' = h @ [raw_leaf v g0,
                 \<lparr>data = n, children = [], grad = gn,
                   backward_fn = NegBw (length h) (Suc (length h)),
                   prev = [length h], op = ''neg'', label = '''',
                   requires_grad = False\<rparr>,
                 \<lparr>data = d, children = [], grad = g,
                   backward_fn = AddBw a (Suc (length h)) (Suc (Suc (length h))),
                   prev = [a, Suc (length h)], op = ''+'', label = '''',
                   requires_grad = requires_grad (h ! a)\<rparr>]"
      by blast
    have 1: "Neg np (h @ [raw_leaf v g0]) (length h)
        = Inr (h @ [raw_leaf v g0, \<lparr>data = n, children = [], grad = gn,
                   backward_fn = NegBw (length h) (Suc (length h)),
                   prev = [length h], op = ''neg'', label = '''',
                   requires_grad = False\<rparr>], Suc (length h))"
      unfolding Neg_of_new_leaf using n by simp
    have 2: "Add np (h @ [raw_leaf v g0, \<lparr>data = n, children = [], grad = gn,
                   backward_fn = NegBw (length h) (Suc (length h)),
                   prev = [length h], op = ''neg'', label = '''',
                   requires_grad = False\<rparr>]) a (Suc (length h)) = Inr (h', z)"
      unfolding Add_of_new_node [OF a] using d r by simp
    show "Tensor_sub np h a (Raw v) = Inr (h', z)"
      by (simp add: operator_raw g0 1 2)
  qed
next
  assume "py_is_number np v"
  then show "\<exists>e. Tensor_matmul np h a (Raw v) = Inl e"
    by (simp add: Tensor_matmul_def Matmul_raw_def raw_data_def)
qed


theorem operators_coerce_a_raw_operand_witness:
  "(\<exists>h. Tensor_add exact two_leaves 0 (Raw (PyNum 3)) = Inr (h, 3) \<and> take 2 h = two_leaves \<and>
       h ! 2 = raw_leaf (PyNum 3) (NdArray [] [0]) \<and> data (h ! 3) = NdArray [1, 1] [5] \<and>
       backward_fn (h ! 3) = AddBw 0 2 3) \<and>
   (\<exists>h. Tensor_mul exact two_leaves 0 (Raw (PyNum 3)) = Inr (h, 3) \<and> take 2 h = two_leaves \<and>
       h ! 2 = raw_leaf (PyNum 3) (NdArray [] [0]) \<and> data (h ! 3) = NdArray [1, 1] [6] \<and>
       backward_fn (h ! 3) = MulBw 0 2 3) \<and>
   (\<exists>h. Tensor_truediv exact two_leaves 0 (Raw (PyNum 4)) = Inr (h, 3) \<and> take 2 h = two_leaves \<and>
       h ! 2 = raw_leaf (PyNum 4) (NdArray [] [0]) \<and> data (h ! 3) = NdArray [1, 1] [1 / 2] \<and>
       backward_fn (h ! 3) = DivBw 0 2 3) \<and>
   (\<exists>h. Tensor_sub exact two_leaves 0 (Raw (PyNum 3)) = Inr (h, 4) \<and> take 2 h = two_leaves \<and>
       h ! 2 = raw_leaf (PyNum 3) (NdArray [] [0]) \<and> data (h ! 3) = PyNum (- 3) \<and>
       backward_fn (h ! 3) = NegBw 2 3 \<and> data (h ! 4) = NdArray [1, 1] [- 1] \<and>
       backward_fn (h ! 4) = AddBw 0 3 4) \<and>
   (\<exists>e. Tensor_matmul exact two_leaves 0 (Raw (PyNum 3)) = Inl e)"
proof -
  have a: "0 < length two_leaves" "length two_leaves = 2"
    by (simp_all add: two_leaves_def)
  have n: "py_is_number exact (PyNum 3)" by (simp add: exact_def)
  note T3 = operators_coerce_a_raw_operand [where np = exact and h = two_leaves and a = 0
      and v = "PyNum 3"]
  note T4 = operators_coerce_a_raw_operand [where np = exact and h = two_leaves and a = 0
      and v = "PyNum 4"]
  have e: "np_zeros_like exact (PyNum 3) = Inr (NdArray [] [0])"
    "np_zeros_like exact (PyNum 4) = Inr (NdArray [] [0])"
    "np_zeros_like exact (PyNum (- 3)) = Inr (NdArray [] [0])"
    "data (two_leaves ! 0) = NdArray [1, 1] [2]"
    "py_add exact (NdArray [1, 1] [2]) (PyNum 3) = Inr (NdArray [1, 1] [5])"
    "py_mul exact (NdArray [1, 1] [2]) (PyNum 3) = Inr (NdArray [1, 1] [6])"
    "py_truediv exact (NdArray [1, 1] [2]) (PyNum 4) = Inr (NdArray [1, 1] [1 / 2])"
    "py_mul exact (PyNum 3) (py_int exact (- 1)) = Inr (PyNum (- 3))"
    "py_add exact (NdArray [1, 1] [2]) (PyNum (- 3)) = Inr (NdArray [1, 1] [- 1])"
    "\<And>x. np_zeros_like exact (NdArray [1, 1] [x]) = Inr (NdArray [1, 1] [0])"
    by (simp_all add: exact_def two_leaves_def divide_val_def)
  have 1: "\<exists>h. Tensor_add exact two_leaves 0 (Raw (PyNum 3)) = Inr (h, 3) \<and> take 2 h = two_leaves \<and>
       h ! 2 = raw_leaf (PyNum 3) (NdArray [] [0]) \<and> data (h ! 3) = NdArray [1, 1] [5] \<and>
       backward_fn (h ! 3) = AddBw 0 2 3"
    using T3 [THEN conjunct1] a(1) by (simp add: e [simplified] a(2) nth_append)
  have 2: "\<exists>h. Tensor_mul exact two_leaves 0 (Raw (PyNum 3)) = Inr (h, 3) \<and> take 2 h = two_leaves \<and>
       h ! 2 = raw_leaf (PyNum 3) (NdArray [] [0]) \<and> data (h ! 3) = NdArray [1, 1] [6] \<and>
       backward_fn (h ! 3) = MulBw 0 2 3"
    using T3 [THEN conjunct2, THEN conjunct1] a(1) by (simp add: e [simplified] a(2) nth_append)
  have 3: "\<exists>h. Tensor_truediv exact two_leaves 0 (Raw (PyNum 4)) = Inr (h, 3) \<and> take 2 h = two_leaves \<and>
       h ! 2 = raw_leaf (PyNum 4) (NdArray [] [0]) \<and> data (h ! 3) = NdArray [1, 1] [1 / 2] \<and>
       backward_fn (h ! 3) = DivBw 0 2 3"
    using T4 [THEN conjunct2, THEN conjunct2, THEN conjunct1] a(1)
    by (simp add: e [simplified] a(2) nth_append)
  have 4: "\<exists>h. Tensor_sub exact two_leaves 0 (Raw (PyNum 3)) = Inr (h, 4) \<and> take 2 h = two_leaves \<and>
       h ! 2 = raw_leaf (PyNum 3) (NdArray [] [0]) \<and> data (h ! 3) = PyNum (- 3) \<and>
       backward_fn (h ! 3) = NegBw 2 3 \<and> data (h ! 4) = NdArray [1, 1] [- 1] \<and>
       backward_fn (h ! 4) = AddBw 0 3 4"
    using T3 [THEN conjunct2, THEN conjunct2, THEN conjunct2, THEN conjunct1] a(1)
    by (simp add: e [simplified] a(2) nth_append)
  have 5: "\<exists>e. Tensor_matmul exact two_leaves 0 (Raw (PyNum 3)) = Inl e"
    using T3 [THEN conjunct2, THEN conjunct2, THEN conjunct2, THEN conjunct2] n by blast
  from 1 2 3 4 5 show ?thesis by (intro conjI)
qed

text \<open>
  C9. As stated, the claim fails for the constructor it names: \<open>Pow(a, b)\<close> itself
  (lines 149-161) has no check, and builds a node for any exponent that \<open>np.power\<close>
  accepts. With \<open>a = [[2]]\<close> and the array \<open>[[3]]\<close> as exponent it returns a node holding
  \<open>[[8]]\<close>. The check is the \<open>assert\<close> of \<open>Tensor.__pow__\<close>, that is of \<open>a ** b\<close>.
\<close>

theorem Pow_accepts_an_array_exponent:
  "bindr (Pow_op exact two_leaves 0 (NdArray [1, 1] [3])) (\<lambda>(h, z).
     Inr (z, data (h ! 0), data (h ! z), backward_fn (h ! z)))
   = Inr (2, NdArray [1, 1] [2], NdArray [1, 1] [8], PowBw 0 (NdArray [1, 1] [3]) 2)"
  by (simp add: Pow_op_def run_defs two_leaves_def)

text \<open>
  C9, amended. For every base node \<open>a\<close> and every exponent that is not an int or a
  float (a Tensor, an array, any other value), \<open>a ** exponent\<close> fails at construction
  time with the assertion error of \<open>Tensor.__pow__\<close>, the InvalidArgument of the
  specification; the constructor \<open>Pow\<close> itself performs no check. For a number \<open>p\<close>
  the assertion passes and, where the library computes \<open>np.power(a.data, p)\<close>, the
  result node holds it as its data; its backward closure adds
  \<open>p * np.power(a.data, p - 1) * result.grad\<close> into \<open>a.grad\<close> when \<open>a\<close> requires a
  gradient, and does nothing otherwise.
\<close>

theorem pow_operator_checks_the_exponent:
  "(\<not> py_is_number np v \<longrightarrow> Tensor_pow np h a (Raw v) = Inl AssertionError) \<and>
   Tensor_pow np h a (Tens r) = Inl AssertionError \<and>
   (py_is_number np p \<and> np_power np (data (h ! a)) p = Inr d \<and> np_zeros_like np d = Inr g \<longrightarrow>
      Tensor_pow np h a (Raw p) =
        Inr (h @ [\<lparr>data = d, children = [], grad = g, backward_fn = PowBw a p (length h),
                   prev = [a], op = ''pow'', label = '''',
                   requires_grad = requires_grad (h ! a)\<rparr>], length h)) \<and>
   (call_backward np (PowBw a p z) h1 = Inr h2 \<and> requires_grad (h1 ! a) \<and> a < length h1 \<longrightarrow>
      (\<exists>p1 q pq c. py_sub np p (py_int np 1) = Inr p1 \<and> np_power np (data (h1 ! a)) p1 = Inr q \<and>
         py_mul np p q = Inr pq \<and> py_mul np pq (grad (h1 ! z)) = Inr c \<and>
         py_iadd np (grad (h1 ! a)) c = Inr (grad (h2 ! a)))) \<and>
   (call_backward np (PowBw a p z) h1 = Inr h2 \<and> \<not> requires_grad (h1 ! a) \<longrightarrow> h2 = h1) \<and>
   (np_power np (data (h ! a)) e = Inr d' \<and> np_zeros_like np d' = Inr g' \<longrightarrow>
      Pow_op np h a e =
        Inr (h @ [\<lparr>data = d', children = [], grad = g', backward_fn = PowBw a e (length h),
                   prev = [a], op = ''pow'', label = '''',
                   requires_grad = requires_grad (h ! a)\<rparr>], length h))"
proof (intro conjI impI)
  assume "\<not> py_is_number np v"
  then show "Tensor_pow np h a (Raw v) = Inl AssertionError"
    by (simp add: Tensor_pow_def)
next
  show "Tensor_pow np h a (Tens r) = Inl AssertionError"
    by (simp add: Tensor_pow_def)
next
  assume "py_is_number np p \<and> np_power np (data (h ! a)) p = Inr d \<and> np_zeros_like np d = Inr g"
  then show "Tensor_pow np h a (Raw p) =
        Inr (h @ [\<lparr>data = d, children = [], grad = g, backward_fn = PowBw a p (length h),
                   prev = [a], op = ''pow'', label = '''',
                   requires_grad = requires_grad (h ! a)\<rparr>], length h)"
    by (simp add: Tensor_pow_def Pow_op_def Tensor_def)
next
  assume "call_backward np (PowBw a p z) h1 = Inr h2 \<and> requires_grad (h1 ! a) \<and> a < length h1"
  then show "\<exists>p1 q pq c. py_sub np p (py_int np 1) = Inr p1 \<and>
         np_power np (data (h1 ! a)) p1 = Inr q \<and>
         py_mul np p q = Inr pq \<and> py_mul np pq (grad (h1 ! z)) = Inr c \<and>
         py_iadd np (grad (h1 ! a)) c = Inr (grad (h2 ! a))"
    by (auto simp: bindr_eq_Inr iadd_grad_Inr grad_set_grad)
next
  assume "call_backward np (PowBw a p z) h1 = Inr h2 \<and> \<not> requires_grad (h1 ! a)"
  then show "h2 = h1" by auto
next
  assume "np_power np (data (h ! a)) e = Inr d' \<and> np_zeros_like np d' = Inr g'"
  then show "Pow_op np h a e =
        Inr (h @ [\<lparr>data = d', children = [], grad = g', backward_fn = PowBw a e (length h),
                   prev = [a], op = ''pow'', label = '''',
                   requires_grad = requires_grad (h ! a)\<rparr>], length h)"
    by (simp add: Pow_op_def Tensor_def)
qed

theorem pow_operator_checks_the_exponent_witness:
  "Tensor_pow exact two_leaves 0 (Raw (NdArray [1, 1] [3])) = Inl AssertionError \<and>
   Tensor_pow exact two_leaves 0 (Tens 1) = Inl AssertionError \<and>
   (\<exists>h h1 h2. Tensor_pow exact two_leaves 0 (Raw (PyNum 3)) = Inr (h, 2) \<and>
       data (h ! 2) = NdArray [1, 1] [8] \<and> backward exact h 2 = Inr h2 \<and>
       h1 = set_grad h 2 (NdArray [1, 1] [1]) \<and>
       call_backward exact (PowBw 0 (PyNum 3) 2) h1 = Inr h2 \<and>
       requires_grad (h1 ! 0) \<and> grad (h1 ! 0) = NdArray [1, 1] [0] \<and>
       grad (h2 ! 0) = NdArray [1, 1] [12] \<and>
       (\<exists>p1 q pq c. py_sub exact (PyNum 3) (py_int exact 1) = Inr p1 \<and>
          np_power exact (data (h1 ! 0)) p1 = Inr q \<and> py_mul exact (PyNum 3) q = Inr pq \<and>
          py_mul exact pq (grad (h1 ! 2)) = Inr c \<and>
          py_iadd exact (grad (h1 ! 0)) c = Inr (NdArray [1, 1] [12]))) \<and>
   (\<exists>k k1 k2. Pow_op exact two_leaves 1 (PyNum 2) = Inr (k, 2) \<and>
       k1 = set_grad k 2 (NdArray [1, 1] [1]) \<and> \<not> requires_grad (k1 ! 1) \<and>
       call_backward exact (PowBw 1 (PyNum 2) 2) k1 = Inr k2 \<and> k2 = k1) \<and>
   (\<exists>h. Pow_op exact two_leaves 0 (NdArray [1, 1] [3]) = Inr (h, 2) \<and>
       data (h ! 2) = NdArray [1, 1] [8])"
proof -
  have n: "\<not> py_is_number exact (NdArray [1, 1] [3])" "py_is_number exact (PyNum 3)"
    "np_power exact (data (two_leaves ! 0)) (PyNum 3) = Inr (NdArray [1, 1] [8])"
    "np_zeros_like exact (NdArray [1, 1] [8]) = Inr (NdArray [1, 1] [0])"
    "np_power exact (data (two_leaves ! 0)) (NdArray [1, 1] [3]) = Inr (NdArray [1, 1] [8])"
    by (simp_all add: exact_def two_leaves_def)
  define H where "H = two_leaves @ [\<lparr>data = NdArray [1, 1] [8], children = [],
      grad = NdArray [1, 1] [0], backward_fn = PowBw 0 (PyNum 3) (length two_leaves),
      prev = [0], op = ''pow'', label = '''',
      requires_grad = requires_grad (two_leaves ! 0)\<rparr>]"
  define h1 where "h1 = set_grad H 2 (NdArray [1, 1] [1])"
  have "\<exists>h2. call_backward exact (PowBw 0 (PyNum 3) 2) h1 = Inr h2 \<and>
      backward exact H 2 = Inr h2 \<and> grad (h2 ! 0) = NdArray [1, 1] [12]"
    by (simp add: h1_def H_def run_defs two_leaves_def)
  then obtain h2 where h2: "call_backward exact (PowBw 0 (PyNum 3) 2) h1 = Inr h2"
    "backward exact H 2 = Inr h2" "grad (h2 ! 0) = NdArray [1, 1] [12]"
    by blast
  have f1: "requires_grad (h1 ! 0)" "0 < length h1" "grad (h1 ! 0) = NdArray [1, 1] [0]"
    "data (H ! 2) = NdArray [1, 1] [8]" "length two_leaves = 2"
    by (simp_all add: h1_def H_def two_leaves_def set_grad_def)
  note T = pow_operator_checks_the_exponent [where np = exact and h = two_leaves and a = 0
      and v = "NdArray [1, 1] [3]" and r = 1 and p = "PyNum 3" and d = "NdArray [1, 1] [8]"
      and g = "NdArray [1, 1] [0]" and z = 2 and ?h1.0 = h1 and ?h2.0 = h2
      and e = "NdArray [1, 1] [3]" and d' = "NdArray [1, 1] [8]" and g' = "NdArray [1, 1] [0]"]
  from T n have 1: "Tensor_pow exact two_leaves 0 (Raw (NdArray [1, 1] [3])) = Inl AssertionError"
    and 2: "Tensor_pow exact two_leaves 0 (Tens 1) = Inl AssertionError"
    and 3: "Tensor_pow exact two_leaves 0 (Raw (PyNum 3)) = Inr (H, 2)"
    by (simp_all add: H_def f1(5))
  from T h2(1) f1 have 4: "\<exists>p1 q pq c. py_sub exact (PyNum 3) (py_int exact 1) = Inr p1 \<and>
          np_power exact (data (h1 ! 0)) p1 = Inr q \<and> py_mul exact (PyNum 3) q = Inr pq \<and>
          py_mul exact pq (grad (h1 ! 2)) = Inr c \<and>
          py_iadd exact (grad (h1 ! 0)) c = Inr (NdArray [1, 1] [12])"
    by (simp add: h2(3))
  from T n have "\<exists>h. Pow_op exact two_leaves 0 (NdArray [1, 1] [3]) = Inr (h, 2) \<and>
       data (h ! 2) = NdArray [1, 1] [8]"
    by (simp add: f1(5) nth_append)
  note 6 = this
  define K where "K = two_leaves @ [\<lparr>data = NdArray [1, 1] [9], children = [],
      grad = NdArray [1, 1] [0], backward_fn = PowBw 1 (PyNum 2) (length two_leaves),
      prev = [1], op = ''pow'', label = '''',
      requires_grad = requires_grad (two_leaves ! 1)\<rparr>]"
  define k1 where "k1 = set_grad K 2 (NdArray [1, 1] [1])"
  have k: "Pow_op exact two_leaves 1 (PyNum 2) = Inr (K, 2)" "\<not> requires_grad (k1 ! 1)"
    by (simp_all add: K_def k1_def Pow_op_def run_defs two_leaves_def)
  have "\<exists>k2. call_backward exact (PowBw 1 (PyNum 2) 2) k1 = Inr k2"
    using k(2) by simp
  then obtain k2 where k2: "call_backward exact (PowBw 1 (PyNum 2) 2) k1 = Inr k2" by blast
  from pow_operator_checks_the_exponent [where np = exact and a = 1 and p = "PyNum 2" and z = 2
      and ?h1.0 = k1 and ?h2.0 = k2] k2 k(2)
  have 5: "k2 = k1" by blast
  have A: "\<exists>h h1 h2. Tensor_pow exact two_leaves 0 (Raw (PyNum 3)) = Inr (h, 2) \<and>
       data (h ! 2) = NdArray [1, 1] [8] \<and> backward exact h 2 = Inr h2 \<and>
       h1 = set_grad h 2 (NdArray [1, 1] [1]) \<and>
       call_backward exact (PowBw 0 (PyNum 3) 2) h1 = Inr h2 \<and>
       requires_grad (h1 ! 0) \<and> grad (h1 ! 0) = NdArray [1, 1] [0] \<and>
       grad (h2 ! 0) = NdArray [1, 1] [12] \<and>
       (\<exists>p1 q pq c. py_sub exact (PyNum 3) (py_int exact 1) = Inr p1 \<and>
          np_power exact (data (h1 ! 0)) p1 = Inr q \<and> py_mul exact (PyNum 3) q = Inr pq \<and>
          py_mul exact pq (grad (h1 ! 2)) = Inr c \<and>
          py_iadd exact (grad (h1 ! 0)) c = Inr (NdArray [1, 1] [12]))"
    apply (rule exI [of _ H], rule exI [of _ h1], rule exI [of _ h2])
    apply (intro conjI)
            apply (rule 3)
           apply (rule f1(4))
          apply (rule h2(2))
         apply (rule h1_def)
        apply (rule h2(1))
       apply (rule f1(1))
      apply (rule f1(3))
     apply (rule h2(3))
    apply (rule 4)
    done
  have B: "\<exists>k k1 k2. Pow_op exact two_leaves 1 (PyNum 2) = Inr (k, 2) \<and>
       k1 = set_grad k 2 (NdArray [1, 1] [1]) \<and> \<not> requires_grad (k1 ! 1) \<and>
       call_backward exact (PowBw 1 (PyNum 2) 2) k1 = Inr k2 \<and> k2 = k1"
    apply (rule exI [of _ K], rule exI [of _ k1], rule exI [of _ k2])
    apply (intro conjI)
        apply (rule k(1))
       apply (rule k1_def)
      apply (rule k(2))
     apply (rule k2)
    apply (rule 5)
    done
  from 1 2 A B 6 show ?thesis by (intro conjI)
qed

text \<open>
  C10. The reflected subtraction \<open>c - t\<close> of a raw number \<open>c\<close> and a Tensor \<open>t\<close>
  is \<open>t.__rsub__(c)\<close>, which returns \<open>t - c\<close>: the operands are not swapped. The data of
  the result is \<open>t.data + c * (-1)\<close>, that is \<open>t.data - c\<close> and not \<open>c - t.data\<close>.
\<close>

theorem rsub_does_not_swap:
  "Tensor_rsub np h t (Raw c) = Tensor_sub np h t (Raw c) \<and>
   (t < length h \<and> Tensor_rsub np h t (Raw c) = Inr (h', z) \<longrightarrow>
      (\<exists>m. py_mul np c (py_int np (- 1)) = Inr m \<and>
           py_add np (data (h ! t)) m = Inr (data (h' ! z)))) \<and>
   (t < length h \<and> Tensor_rsub np h t (Raw c) = Inr (h', z) \<and> negation_law np \<longrightarrow>
      py_sub np (data (h ! t)) c = Inr (data (h' ! z)))"
proof -
  have 1: "\<exists>m. py_mul np c (py_int np (- 1)) = Inr m \<and>
           py_add np (data (h ! t)) m = Inr (data (h' ! z))"
    if t: "t < length h" and r: "Tensor_rsub np h t (Raw c) = Inr (h', z)"
  proof -
    from r obtain h1 b h2 nb where c: "coerce np h (Raw c) = Inr (h1, b)"
      and n: "Neg np h1 b = Inr (h2, nb)" and a: "Add np h2 t nb = Inr (h', z)"
      by (auto simp: Tensor_rsub_def Tensor_sub_def Tensor_add_def Tensor_neg_def coerce_def
          bindr_eq_Inr)
    from c have h1: "length h1 = Suc (length h)" "b = length h" "data (h1 ! b) = c"
      "h1 ! t = h ! t"
      using t by (auto simp: coerce_Inr nth_append)
    from n obtain m where h2: "nb = length h1" "data (h2 ! nb) = m" "h2 ! t = h1 ! t"
      "py_mul np (data (h1 ! b)) (py_int np (- 1)) = Inr m"
      using t h1(1) by (auto simp: Neg_Inr nth_append)
    from a have h': "py_add np (data (h2 ! t)) (data (h2 ! nb)) = Inr (data (h' ! z))"
      by (auto simp: Add_Inr)
    from h1 h2 h' show ?thesis by auto
  qed
  then show ?thesis
    by (auto simp: Tensor_rsub_def negation_law_def)
qed

theorem rsub_does_not_swap_witness:
  "\<exists>h' z. Tensor_rsub exact two_leaves 0 (Raw (PyNum 5)) = Inr (h', z) \<and>
      data (two_leaves ! 0) = NdArray [1, 1] [2] \<and>
      data (h' ! z) = NdArray [1, 1] [- 3] \<and>
      py_sub exact (data (two_leaves ! 0)) (PyNum 5) = Inr (NdArray [1, 1] [- 3]) \<and>
      py_sub exact (PyNum 5) (data (two_leaves ! 0)) = Inr (NdArray [1, 1] [3])"
proof -
  have "\<exists>h' z. Tensor_rsub exact two_leaves 0 (Raw (PyNum 5)) = Inr (h', z)"
    by (simp add: Tensor_rsub_def Tensor_sub_def Tensor_add_def Tensor_neg_def coerce_def
        Neg_def Add_def run_defs two_leaves_def)
  then obtain h' z where r: "Tensor_rsub exact two_leaves 0 (Raw (PyNum 5)) = Inr (h', z)"
    by blast
  have t: "0 < length two_leaves" "data (two_leaves ! 0) = NdArray [1, 1] [2]"
    "py_sub exact (NdArray [1, 1] [2]) (PyNum 5) = Inr (NdArray [1, 1] [- 3])"
    "py_sub exact (PyNum 5) (NdArray [1, 1] [2]) = Inr (NdArray [1, 1] [3])"
    by (simp_all add: two_leaves_def exact_def)
  from rsub_does_not_swap [of exact two_leaves 0 "PyNum 5" h' z] r t exact_negation_law
  have "data (h' ! z) = NdArray [1, 1] [- 3]" by simp
  with r t show ?thesis by auto
qed

end
